theory Spec2Isabelle
  imports Main "HOL-Library.Sublist"
begin

section \<open>JavaScript strings\<close>

text \<open>
  A JavaScript string is a sequence of code units; the model uses \<^typ>\<open>string\<close>, one
  \<^typ>\<open>char\<close> per code unit. Every operation used by the plugin works position by
  position, so nothing depends on the width of a code unit.
\<close>

definition startsWith :: "string \<Rightarrow> string \<Rightarrow> bool" where
  "startsWith s p = prefix p s"

definition endsWith :: "string \<Rightarrow> string \<Rightarrow> bool" where
  "endsWith s p = suffix p s"

text \<open>
  \<open>s.indexOf(p)\<close>: the position of the first occurrence of \<open>p\<close> in \<open>s\<close>, \<open>None\<close> for
  JavaScript's \<open>-1\<close>. The empty pattern occurs at position 0 of every string.
\<close>

fun indexOf :: "string \<Rightarrow> string \<Rightarrow> nat option" where
  "indexOf [] p = (if p = [] then Some 0 else None)"
| "indexOf (c # cs) p =
     (if prefix p (c # cs) then Some 0 else map_option Suc (indexOf cs p))"

text \<open>
  The replacement text of \<open>String.prototype.replace\<close> is a template: \<open>$$\<close> stands for a
  dollar sign, \<open>$&\<close> for the matched text, \<open>$`\<close> for the text before the match and
  \<open>$'\<close> for the text after it. With a string pattern there are no capture groups, so
  every other use of \<open>$\<close> is literal.
\<close>

fun getSubstitution :: "string \<Rightarrow> string \<Rightarrow> string \<Rightarrow> string \<Rightarrow> string" where
  "getSubstitution matched preceding following (c # d # cs) =
     (if c = CHR 0x24 then
        (if d = CHR 0x24 then CHR 0x24 # getSubstitution matched preceding following cs
         else if d = CHR 0x26 then matched @ getSubstitution matched preceding following cs
         else if d = CHR 0x60 then preceding @ getSubstitution matched preceding following cs
         else if d = CHR 0x27 then following @ getSubstitution matched preceding following cs
         else c # getSubstitution matched preceding following (d # cs))
      else c # getSubstitution matched preceding following (d # cs))"
| "getSubstitution matched preceding following cs = cs"

text \<open>
  \<open>s.replace(pattern, replacement)\<close> with a string pattern: only the first occurrence is
  replaced, and a string without the pattern is returned as it is.
\<close>

definition replace :: "string \<Rightarrow> string \<Rightarrow> string \<Rightarrow> string" where
  "replace s pattern replacement =
     (case indexOf s pattern of
        None \<Rightarrow> s
      | Some i \<Rightarrow>
          take i s
          @ getSubstitution pattern (take i s) (drop (i + length pattern) s) replacement
          @ drop (i + length pattern) s)"

text \<open>\<open>s.split(sep)\<close> for a separator of one character; the result is never empty.\<close>

fun split_from :: "char \<Rightarrow> string \<Rightarrow> string \<Rightarrow> string list" where
  "split_from sep acc [] = [rev acc]"
| "split_from sep acc (c # cs) =
     (if c = sep then rev acc # split_from sep [] cs else split_from sep (c # acc) cs)"

definition js_split :: "string \<Rightarrow> char \<Rightarrow> string list" where
  "js_split s sep = split_from sep [] s"

section \<open>Code injection\<close>

text \<open>
  Modelled from the spec: the enumeration \<open>POS\<close> and the type \<open>InjectCode\<close> of
  \<open>types.ts\<close>, which is not part of the sources at hand. A position is \<open>before\<close>,
  \<open>after\<close> or any other value; the other values carry a tag so that they can be told
  apart.
\<close>

datatype POS = POS_before | POS_after | POS_other nat

record InjectCode =
  pos :: POS
  find :: string
  replacement :: string

definition generateInjectCode :: "InjectCode \<Rightarrow> string \<Rightarrow> string" where
  "generateInjectCode rule code =
     (if pos rule = POS_after then
        replace code (find rule) (find rule @ ''\<newline>'' @ replacement rule)
      else if pos rule = POS_before then
        replace code (find rule) (''\<newline>'' @ replacement rule @ ''\<newline>'' @ find rule)
      else code)"


section \<open>The runtime around the plugin\<close>

datatype error = ReadFileError string | Thrown string

datatype fs_node = File string | Directory

type_synonym 'v TemplateData = "string \<rightharpoonup> 'v"

type_synonym 'v TemplateRender = "string \<Rightarrow> 'v TemplateData \<Rightarrow> error + string"

text \<open>
  What the class takes from outside the repository's sources: the working directory of
  the process, \<open>normalizePath\<close> of \<open>utils.ts\<close> (not part of the sources at hand, so a
  parameter), \<open>path.resolve\<close>, the file system, \<open>glob.sync\<close>, and the module \<open>ejs\<close>
  (\<open>None\<close> when \<open>require.resolve('ejs')\<close> fails; otherwise its \<open>render\<close> with the
  delimiter \<open>%\<close> and the working directory as root, which may throw).
\<close>

record 'v runtime =
  process_cwd :: string
  normalizePath :: "string \<Rightarrow> string"
  path_resolve :: "string \<Rightarrow> string \<Rightarrow> string"
  fs :: "string \<rightharpoonup> fs_node"
  glob_sync :: "string list \<Rightarrow> string list"
  ejs :: "'v TemplateRender option"

section \<open>Page definitions\<close>

text \<open>
  Modelled from the spec: the types \<open>PageObject\<close>, \<open>VirtualPageOptions\<close>,
  \<open>VirtualHtmlPage\<close> and \<open>Pages\<close> of \<open>types.ts\<close>, which is not part of the sources at
  hand. A page definition is a template path, a template descriptor, or a virtual
  descriptor with an entry module. A render function is the built-in \<open>defaultRender\<close>
  or a function supplied by the user.
\<close>

datatype 'v Render = DefaultRender | CustomRender "'v TemplateRender"

record 'v PageObject =
  template :: string
  data :: "'v TemplateData option"
  render :: "'v Render option"

record VirtualPageOptions =
  entry :: string
  title :: "string option"
  body :: "string option"

datatype 'v VirtualHtmlPage =
  TemplatePath string
  | TemplatePage "'v PageObject"
  | VirtualPage VirtualPageOptions

text \<open>
  \<open>Pages\<close> and the injection table are plain objects. Reading \<open>obj[k]\<close> (and \<open>k in obj\<close>)
  finds the object's own property or, failing that, a member of \<open>Object.prototype\<close>;
  assigning a string to \<open>obj['__proto__']\<close> changes nothing.
\<close>

datatype 'a js_prop = Undefined | Inherited | Own 'a

definition object_prototype_keys :: "string list" where
  "object_prototype_keys =
     [''constructor'', ''__defineGetter__'', ''__defineSetter__'', ''hasOwnProperty'',
      ''__lookupGetter__'', ''__lookupSetter__'', ''isPrototypeOf'',
      ''propertyIsEnumerable'', ''toString'', ''valueOf'', ''__proto__'',
      ''toLocaleString'']"

definition get_prop :: "(string \<rightharpoonup> 'a) \<Rightarrow> string \<Rightarrow> 'a js_prop" where
  "get_prop obj k =
     (case obj k of
        Some v \<Rightarrow> Own v
      | None \<Rightarrow> if k \<in> set object_prototype_keys then Inherited else Undefined)"

definition set_prop :: "(string \<rightharpoonup> 'a) \<Rightarrow> string \<Rightarrow> 'a \<Rightarrow> (string \<rightharpoonup> 'a)" where
  "set_prop obj k v = (if k = ''__proto__'' then obj else obj(k \<mapsto> v))"

text \<open>
  Truthiness, as \<open>||\<close> tests it: \<open>undefined\<close> and the empty string are falsy, every
  object is truthy.
\<close>

fun truthy :: "'v VirtualHtmlPage js_prop \<Rightarrow> bool" where
  "truthy Undefined = False"
| "truthy Inherited = True"
| "truthy (Own (TemplatePath p)) = (p \<noteq> [])"
| "truthy (Own (TemplatePage obj)) = True"
| "truthy (Own (VirtualPage v)) = True"

definition js_or ::
  "'v VirtualHtmlPage js_prop \<Rightarrow> 'v VirtualHtmlPage js_prop \<Rightarrow> 'v VirtualHtmlPage js_prop"
where
  "js_or a b = (if truthy a then a else b)"

section \<open>The class Base\<close>

text \<open>
  \<open>Base.ts\<close> holds two revisions of the class. The model follows the second one (arrow
  function members, \<open>_filter\<close>, candidate probing in \<open>_load\<close>), which is the one
  \<open>Serve\<close> relies on: it hands \<open>_load\<close> paths that end in a slash. Members whose names
  start with an underscore lose it here, or are prefixed with \<open>Base\<close>.
\<close>

record 'v Base =
  config_root :: "string option"
  pages :: "string \<rightharpoonup> 'v VirtualHtmlPage"
  indexPage :: string
  globalRender :: "'v Render"
  globalData :: "'v TemplateData"
  injectCode :: "string \<rightharpoonup> InjectCode"
  cwd :: string

definition DEFAULT_GLOB_PATTERN :: "string list" where
  "DEFAULT_GLOB_PATTERN = [''**/*.html'', ''!node_modules/**/*.html'', ''!.**/*.html'']"

definition DEFAULT_INJECTCODE_ALL :: string where
  "DEFAULT_INJECTCODE_ALL = ''*''"

definition VIRTUAL_HTML_CONTENT :: string where
  \<open>VIRTUAL_HTML_CONTENT =
     ''\<newline><!DOCTYPE html>\<newline><html lang="en">\<newline><head>\<newline>''
     @ ''    <meta charset="UTF-8">\<newline>''
     @ ''    <title>#TITLE#</title>\<newline>''
     @ ''    <script src="#ENTRY#" type="module"></script>\<newline>''
     @ ''</head>\<newline><body>\<newline>#BODY#\<newline></body>\<newline></html>\<newline>''\<close>

text \<open>
  \<open>createFilter(/\.html|\/$/)\<close> of the host build tool: an id with a NUL character is
  refused, backslashes are read as slashes, and the id is accepted when it contains
  \<open>.html\<close> or ends with a slash.
\<close>

definition Base_filter :: "string \<Rightarrow> bool" where
  "Base_filter ident =
     (CHR 0x00 \<notin> set ident \<and>
      (let pathId = map (\<lambda>c. if c = CHR 0x5C then CHR ''/'' else c) ident
       in indexOf pathId ''.html'' \<noteq> None \<or> endsWith pathId ''/''))"

text \<open>\<open>s.substring(start, end)\<close> for indices that are natural numbers.\<close>

definition substring :: "string \<Rightarrow> nat \<Rightarrow> nat \<Rightarrow> string" where
  "substring s start finish =
     (let a = min start (length s); b = min finish (length s)
      in take (max a b - min a b) (drop (min a b) s))"

definition addTrailingSlash :: "'v runtime \<Rightarrow> 'v Base \<Rightarrow> string \<Rightarrow> string" where
  "addTrailingSlash rt this path =
     (let p = normalizePath rt (replace path (cwd this) [])
      in if endsWith p ''/'' then p else p @ ''/'')"

definition getHtmlName :: "'v runtime \<Rightarrow> 'v Base \<Rightarrow> string \<Rightarrow> string option \<Rightarrow> string" where
  "getHtmlName rt this ident root =
     (let root' = replace (case root of None \<Rightarrow> [] | Some r \<Rightarrow> r) (cwd this) [];
          id' = replace ident (cwd this) [];
          result = replace (replace id' ''.html'' [])
                     (if root' \<noteq> [] then addTrailingSlash rt this root' else []) []
      in if startsWith result ''/'' then substring result 1 (length result) else result)"

definition generateUrl :: "string option \<Rightarrow> string" where
  "generateUrl u =
     (case u of
        None \<Rightarrow> ''/''
      | Some s \<Rightarrow>
          if s = [] then ''/''
          else if (case indexOf s ''?'' of None \<Rightarrow> False | Some i \<Rightarrow> 0 < i)
          then hd (js_split s CHR ''?'')
          else s)"


subsection \<open>Rendering a template\<close>

text \<open>
  The logger is the only state the second revision writes: each call appends its
  message to the log, which the functions below take and return.
\<close>

definition missing_template_warning :: string where
  "missing_template_warning = ''[vite-plugin-virtual-html]: template file must exist!''"

definition existsSync :: "'v runtime \<Rightarrow> string \<Rightarrow> bool" where
  "existsSync rt p = (fs rt p \<noteq> None)"

definition readTemplate :: "'v runtime \<Rightarrow> string \<Rightarrow> error + string" where
  "readTemplate rt templatePath =
     (case fs rt templatePath of
        Some (File content) \<Rightarrow> Inr content
      | Some Directory \<Rightarrow> Inl (ReadFileError templatePath)
      | None \<Rightarrow> Inl (ReadFileError templatePath))"

text \<open>
  \<open>defaultRender\<close>: whatever is thrown inside \<open>try\<close> is caught and dropped, and the
  template is returned as it is; nothing is logged.
\<close>

definition defaultRender ::
  "'v runtime \<Rightarrow> string \<Rightarrow> 'v TemplateData \<Rightarrow> string list \<Rightarrow> string \<times> string list"
where
  "defaultRender rt tpl d log =
     (case ejs rt of
        None \<Rightarrow> (tpl, log)
      | Some ejs_render \<Rightarrow>
          (case ejs_render tpl d of Inl e \<Rightarrow> (tpl, log) | Inr out \<Rightarrow> (out, log)))"

definition call_render ::
  "'v runtime \<Rightarrow> 'v Render \<Rightarrow> string \<Rightarrow> 'v TemplateData \<Rightarrow> string list
     \<Rightarrow> (error + string) \<times> string list"
where
  "call_render rt r code d log =
     (case r of
        DefaultRender \<Rightarrow> (let (out, log') = defaultRender rt code d log in (Inr out, log'))
      | CustomRender f \<Rightarrow> (f code d, log))"

definition renderTemplate ::
  "'v runtime \<Rightarrow> string \<Rightarrow> 'v Render \<Rightarrow> 'v TemplateData \<Rightarrow> string list
     \<Rightarrow> (error + string) \<times> string list"
where
  "renderTemplate rt templatePath r d log =
     (case readTemplate rt templatePath of
        Inl e \<Rightarrow> (Inl e, log)
      | Inr code \<Rightarrow> call_render rt r code d log)"

definition readHtml ::
  "'v runtime \<Rightarrow> 'v Base \<Rightarrow> 'v PageObject \<Rightarrow> string list \<Rightarrow> (error + string) \<times> string list"
where
  "readHtml rt this page log =
     (let templatePath = path_resolve rt (cwd this) (''.'' @ template page)
      in if \<not> existsSync rt templatePath
         then (Inr [], log @ [missing_template_warning])
         else renderTemplate rt templatePath
                (case render page of None \<Rightarrow> DefaultRender | Some r \<Rightarrow> r)
                (case data page of None \<Rightarrow> Map.empty | Some d \<Rightarrow> d) log)"

definition generatePageOptions ::
  "string + 'v PageObject \<Rightarrow> 'v TemplateData \<Rightarrow> 'v Render \<Rightarrow> 'v PageObject"
where
  "generatePageOptions page gData gRender =
     (case page of
        Inl path \<Rightarrow> \<lparr>template = path, data = Some gData, render = Some gRender\<rparr>
      | Inr obj \<Rightarrow>
          \<lparr>template = template obj,
           data = Some (gData ++ (case data obj of None \<Rightarrow> Map.empty | Some d \<Rightarrow> d)),
           render = Some (case render obj of None \<Rightarrow> gRender | Some r \<Rightarrow> r)\<rparr>)"

definition generateVirtualPage :: "VirtualPageOptions \<Rightarrow> string" where
  \<open>generateVirtualPage vPages =
     replace
       (replace
          (replace VIRTUAL_HTML_CONTENT ''#ENTRY#'' (entry vPages))
          ''#TITLE#'' (case title vPages of None \<Rightarrow> [] | Some t \<Rightarrow> t))
       ''#BODY#'' (case body vPages of None \<Rightarrow> ''<div id="app"></div>'' | Some b \<Rightarrow> b)\<close>

subsection \<open>Auto-discovery\<close>

text \<open>A JavaScript \<open>Set\<close> keeps its keys in the order of their first insertion.\<close>

definition set_add :: "string list \<Rightarrow> string \<Rightarrow> string list" where
  "set_add keys k = (if k \<in> set keys then keys else keys @ [k])"

definition realPattern :: "string list \<Rightarrow> string list" where
  "realPattern extraGlobPattern =
     (if length extraGlobPattern = 0 then DEFAULT_GLOB_PATTERN
      else foldl set_add (foldl set_add [] DEFAULT_GLOB_PATTERN) extraGlobPattern)"

definition findAllHtmlInProject ::
  "'v runtime \<Rightarrow> string list \<Rightarrow> (string \<rightharpoonup> 'v VirtualHtmlPage)"
where
  "findAllHtmlInProject rt extraGlobPattern =
     foldl
       (\<lambda>found file.
          set_prop found (replace (last (js_split file CHR ''/'')) ''.html'' [])
            (TemplatePath (''/'' @ file)))
       Map.empty
       (glob_sync rt (realPattern extraGlobPattern))"

text \<open>The name under which a file found by the scan is entered in the table.\<close>

definition page_name :: "string \<Rightarrow> string" where
  "page_name file = replace (last (js_split file CHR ''/'')) ''.html'' []"

subsection \<open>Loading and transforming\<close>

text \<open>
  The part of \<open>_load\<close> that picks the page definition: the normalised name and the three
  derived keys, probed with \<open>||\<close>.
\<close>

definition pageOption :: "'v runtime \<Rightarrow> 'v Base \<Rightarrow> string \<Rightarrow> 'v VirtualHtmlPage js_prop" where
  "pageOption rt this ident =
     (let newId = getHtmlName rt this ident (config_root this);
          maybeIndexName1 = replace (newId @ ''/'') ''//'' ''/'';
          maybeIndexName2 = replace (newId @ ''/index'') ''//'' ''/'';
          maybeIndexName3 = replace (replace newId ''index'' []) ''//'' ''/''
      in js_or
           (js_or
              (js_or (get_prop (pages this) newId) (get_prop (pages this) maybeIndexName1))
              (get_prop (pages this) maybeIndexName2))
           (get_prop (pages this) maybeIndexName3))"

text \<open>The part of \<open>_load\<close> that produces the HTML of the definition picked.\<close>

definition load_page ::
  "'v runtime \<Rightarrow> 'v Base \<Rightarrow> 'v VirtualHtmlPage js_prop \<Rightarrow> string list
     \<Rightarrow> (error + string option) \<times> string list"
where
  "load_page rt this opt log =
     (case opt of
        Undefined \<Rightarrow> (Inr None, log)
      | Inherited \<Rightarrow> (Inr None, log)
      | Own (TemplatePath path) \<Rightarrow>
          (let (r, log') =
                 readHtml rt this
                   (generatePageOptions (Inl path) (globalData this) (globalRender this)) log
           in (map_sum id Some r, log'))
      | Own (TemplatePage obj) \<Rightarrow>
          (let (r, log') =
                 readHtml rt this
                   (generatePageOptions (Inr obj) (globalData this) (globalRender this)) log
           in (map_sum id Some r, log'))
      | Own (VirtualPage v) \<Rightarrow> (Inr (Some (generateVirtualPage v)), log))"

definition Base_load ::
  "'v runtime \<Rightarrow> 'v Base \<Rightarrow> string \<Rightarrow> string list \<Rightarrow> (error + string option) \<times> string list"
where
  "Base_load rt this ident log =
     (if Base_filter ident then load_page rt this (pageOption rt this ident) log
      else (Inr None, log))"

text \<open>An id resolves to a definition when the filter accepts it and the probing picks it.\<close>

definition resolves_to :: "'v runtime \<Rightarrow> 'v Base \<Rightarrow> string \<Rightarrow> 'v VirtualHtmlPage \<Rightarrow> bool" where
  "resolves_to rt this ident d = (Base_filter ident \<and> pageOption rt this ident = Own d)"

text \<open>
  The text that \<open>getHtmlName\<close> removes for the configured root: nothing for an empty
  root, the root with a trailing slash otherwise.
\<close>

definition root_prefix :: "'v runtime \<Rightarrow> 'v Base \<Rightarrow> string option \<Rightarrow> string" where
  "root_prefix rt this root =
     (let root' = replace (case root of None \<Rightarrow> [] | Some r \<Rightarrow> r) (cwd this) []
      in if root' \<noteq> [] then addTrailingSlash rt this root' else [])"

text \<open>
  \<open>_transform\<close>. The test \<open>k in obj\<close> also holds for a key that is only a member of
  \<open>Object.prototype\<close>; its value has no \<open>pos\<close>, so \<open>generateInjectCode\<close> returns the
  code it was given.
\<close>

definition has_prop :: "(string \<rightharpoonup> 'a) \<Rightarrow> string \<Rightarrow> bool" where
  "has_prop obj k = (get_prop obj k \<noteq> Undefined)"

definition generateInjectCode_of :: "InjectCode js_prop \<Rightarrow> string \<Rightarrow> string" where
  "generateInjectCode_of rule code =
     (case rule of Own r \<Rightarrow> generateInjectCode r code | Inherited \<Rightarrow> code | Undefined \<Rightarrow> code)"

definition Base_transform :: "'v Base \<Rightarrow> string \<Rightarrow> string \<Rightarrow> string option" where
  "Base_transform this code ident =
     (if Base_filter ident then
        (let ids = js_split ident CHR ''/'';
             key = last ids;
             code0 = code;
             code1 =
               (if has_prop (injectCode this) DEFAULT_INJECTCODE_ALL
                then generateInjectCode_of
                       (get_prop (injectCode this) DEFAULT_INJECTCODE_ALL) code
                else code0);
             code2 =
               (if has_prop (injectCode this) key
                then generateInjectCode_of (get_prop (injectCode this) key) code
                else code1)
         in Some code2)
      else None)"

subsection \<open>Construction\<close>

text \<open>
  The options of the constructor, each \<open>None\<close> when the caller leaves it out;
  \<open>opt_pages\<close> is also \<open>None\<close> for \<open>pages: true\<close>.
\<close>

record 'v HtmlPluginOptions =
  opt_pages :: "(string \<rightharpoonup> 'v VirtualHtmlPage) option"
  opt_indexPage :: "string option"
  opt_render :: "'v Render option"
  opt_data :: "'v TemplateData option"
  opt_extraGlobPattern :: "string list option"
  opt_injectCode :: "(string \<rightharpoonup> InjectCode) option"

definition Base_new :: "'v runtime \<Rightarrow> 'v HtmlPluginOptions \<Rightarrow> 'v Base" where
  "Base_new rt opts =
     \<lparr>config_root = None,
      pages =
        (case opt_pages opts of
           None \<Rightarrow>
             findAllHtmlInProject rt
               (case opt_extraGlobPattern opts of None \<Rightarrow> [] | Some ps \<Rightarrow> ps)
         | Some pagesObj \<Rightarrow> pagesObj),
      indexPage = (case opt_indexPage opts of None \<Rightarrow> ''index'' | Some i \<Rightarrow> i),
      globalRender = (case opt_render opts of None \<Rightarrow> DefaultRender | Some r \<Rightarrow> r),
      globalData = (case opt_data opts of None \<Rightarrow> Map.empty | Some d \<Rightarrow> d),
      injectCode = (case opt_injectCode opts of None \<Rightarrow> Map.empty | Some c \<Rightarrow> c),
      cwd = normalizePath rt (process_cwd rt)\<rparr>"

section \<open>The class Serve\<close>

text \<open>
  The middleware that \<open>_configureServer\<close> registers. \<open>Serve\<close> extends \<open>Base\<close> with the
  URL transformer; \<open>decodeURI\<close> and the server's \<open>transformIndexHtml\<close> come from
  outside and may throw. The middleware's calls are recorded in the order it makes them.
\<close>

record request =
  originalUrl :: "string option"
  url :: "string option"

record 'v Serve =
  base :: "'v Base"
  urlTransformer :: "(string \<Rightarrow> request \<Rightarrow> error + string) option"

record ViteDevServer =
  decodeURI :: "string \<Rightarrow> error + string"
  transformIndexHtml :: "string \<Rightarrow> string \<Rightarrow> error + string"

datatype event =
  CallLoad string
  | CallTransform string string
  | ResEnd string
  | CallNext
  | Rejected error

text \<open>
  The middleware from the point where the effective URL is known: first the test that
  lets every other request pass, then the index page, then \<open>respond\<close> with the URL to
  load.
\<close>

definition respond ::
  "'v runtime \<Rightarrow> 'v Serve \<Rightarrow> ViteDevServer \<Rightarrow> string \<Rightarrow> string list
     \<Rightarrow> event list \<times> string list"
where
  "respond rt this server u log =
     (let arg = normalizePath rt u;
          (loaded, log') = Base_load rt (base this) arg log
      in case loaded of
           Inl e \<Rightarrow> ([CallLoad arg, Rejected e], log')
         | Inr r \<Rightarrow>
             (let htmlCode = (case r of None \<Rightarrow> [] | Some c \<Rightarrow> c)
              in case Base_transform (base this) htmlCode u of
                   None \<Rightarrow> ([CallLoad arg, CallTransform htmlCode u, CallNext], log')
                 | Some transformResult \<Rightarrow>
                     (case transformIndexHtml server u transformResult of
                        Inl e \<Rightarrow> ([CallLoad arg, CallTransform htmlCode u, Rejected e], log')
                      | Inr html \<Rightarrow>
                          ([CallLoad arg, CallTransform htmlCode u, ResEnd html, CallNext],
                           log'))))"

definition serve_url ::
  "'v runtime \<Rightarrow> 'v Serve \<Rightarrow> ViteDevServer \<Rightarrow> string \<Rightarrow> string list
     \<Rightarrow> event list \<times> string list"
where
  "serve_url rt this server u log =
     (if (\<not> endsWith u ''.html'' \<and> \<not> endsWith u ''/'') \<and> u \<noteq> ''/'' then ([CallNext], log)
      else
        respond rt this server
          (if u = ''/'' \<or> u = ''/index.html''
           then ''/'' @ indexPage (base this) @ ''.html'' else u)
          log)"

text \<open>
  The effective URL: \<open>originalUrl\<close> when it ends with a slash, \<open>req.url\<close> otherwise,
  without its query, decoded, and passed through the URL transformer when there is one.
\<close>

definition effective_url :: "'v Serve \<Rightarrow> ViteDevServer \<Rightarrow> request \<Rightarrow> error + string" where
  "effective_url this server req =
     (case decodeURI server
             (generateUrl
                (if (case originalUrl req of None \<Rightarrow> False | Some ou \<Rightarrow> endsWith ou ''/'')
                 then originalUrl req else url req)) of
        Inl e \<Rightarrow> Inl e
      | Inr u0 \<Rightarrow> (case urlTransformer this of None \<Rightarrow> Inr u0 | Some f \<Rightarrow> f u0 req))"

definition middleware ::
  "'v runtime \<Rightarrow> 'v Serve \<Rightarrow> ViteDevServer \<Rightarrow> request \<Rightarrow> string list
     \<Rightarrow> event list \<times> string list"
where
  "middleware rt this server req log =
     (case effective_url this server req of
        Inl e \<Rightarrow> ([Rejected e], log)
      | Inr u \<Rightarrow> serve_url rt this server u log)"

section \<open>Counting occurrences\<close>

fun occurrences :: "string \<Rightarrow> string \<Rightarrow> nat" where
  "occurrences [] p = (if p = [] then 1 else 0)"
| "occurrences (c # cs) p = (if prefix p (c # cs) then 1 else 0) + occurrences cs p"

section \<open>Example configurations\<close>

text \<open>
  A project in \<open>/work\<close> with the single file \<open>/work/about.html\<close>, no \<open>ejs\<close>, and paths
  that need no normalising.
\<close>

definition example_runtime :: "unit runtime" where
  "example_runtime =
     \<lparr>process_cwd = ''/work'',
      normalizePath = (\<lambda>p. p),
      path_resolve = (\<lambda>dir p. dir @ drop 1 p),
      fs = [''/work/about.html'' \<mapsto> File ''<p>about</p>''],
      glob_sync = (\<lambda>patterns. [''about.html'']),
      ejs = None\<rparr>"

definition example_options :: "unit HtmlPluginOptions" where
  "example_options =
     \<lparr>opt_pages = Some [''about'' \<mapsto> TemplatePath ''/about.html''],
      opt_indexPage = None,
      opt_render = None,
      opt_data = None,
      opt_extraGlobPattern = None,
      opt_injectCode = None\<rparr>"

definition example_base :: "unit Base" where
  "example_base = Base_new example_runtime example_options"

text \<open>
  A project whose scan finds \<open>pages/about.html\<close> for the default patterns followed by
  \<open>pages/*.htm\<close>, \<open>index.html\<close> for the default patterns alone, and nothing for any
  other list of patterns.
\<close>

definition scan_runtime :: "unit runtime" where
  "scan_runtime =
     example_runtime
       \<lparr>glob_sync :=
          (\<lambda>patterns.
             if patterns = [''**/*.html'', ''!node_modules/**/*.html'', ''!.**/*.html'',
                            ''pages/*.htm'']
             then [''pages/about.html'']
             else if patterns = [''**/*.html'', ''!node_modules/**/*.html'', ''!.**/*.html'']
             then [''index.html'']
             else [])\<rparr>"

text \<open>A table whose entry under the exact name is the empty string.\<close>

definition example_main :: VirtualPageOptions where
  "example_main = \<lparr>entry = ''/src/main.ts'', title = Some ''App'', body = None\<rparr>"

definition shadowed_base :: "unit Base" where
  "shadowed_base =
     Base_new example_runtime
       (example_options
          \<lparr>opt_pages :=
             Some [''about'' \<mapsto> TemplatePath [], ''about/'' \<mapsto> VirtualPage example_main]\<rparr>)"

text \<open>A table with entries under the exact name and under a derived key.\<close>

definition priority_base :: "unit Base" where
  "priority_base =
     Base_new example_runtime
       (example_options
          \<lparr>opt_pages :=
             Some [''about'' \<mapsto> TemplatePath ''/about.html'',
                   ''about/'' \<mapsto> VirtualPage example_main]\<rparr>)"

text \<open>Tables with a directory-style key, and one whose template file does not exist.\<close>

definition directory_base :: "unit Base" where
  "directory_base =
     Base_new example_runtime
       (example_options \<lparr>opt_pages := Some [''about/'' \<mapsto> TemplatePath ''/about.html'']\<rparr>)"

definition index_base :: "unit Base" where
  "index_base =
     Base_new example_runtime
       (example_options
          \<lparr>opt_pages := Some [''about/index'' \<mapsto> TemplatePath ''/about.html'']\<rparr>)"

definition missing_base :: "unit Base" where
  "missing_base =
     Base_new example_runtime
       (example_options \<lparr>opt_pages := Some [''gone'' \<mapsto> TemplatePath ''/gone.html'']\<rparr>)"

text \<open>Injection rules under the wildcard key and under a file name.\<close>

definition inject_base :: "unit Base" where
  "inject_base =
     Base_new example_runtime
       (example_options
          \<lparr>opt_injectCode :=
             Some [''*'' \<mapsto> \<lparr>pos = POS_after, find = ''A'', replacement = ''X''\<rparr>,
                   ''index.html'' \<mapsto> \<lparr>pos = POS_after, find = ''B'', replacement = ''Y''\<rparr>]\<rparr>)"

text \<open>A server that decodes nothing and returns the HTML it is given.\<close>

definition example_serve :: "unit Serve" where
  "example_serve = \<lparr>base = example_base, urlTransformer = None\<rparr>"

definition example_server :: ViteDevServer where
  "example_server = \<lparr>decodeURI = Inr, transformIndexHtml = (\<lambda>u html. Inr html)\<rparr>"


section \<open>Evaluation and replacement\<close>

text \<open>The definitions that evaluating \<open>_load\<close> on a concrete project unfolds.\<close>

lemmas load_defs =
  example_runtime_def example_options_def Base_new_def Base_load_def Base_filter_def
  pageOption_def load_page_def getHtmlName_def addTrailingSlash_def replace_def endsWith_def
  startsWith_def substring_def get_prop_def js_or_def object_prototype_keys_def readHtml_def
  generatePageOptions_def existsSync_def renderTemplate_def readTemplate_def call_render_def
  defaultRender_def suffix_to_prefix Let_def

lemma replace_absent: "indexOf s p = None \<Longrightarrow> replace s p r = s"
  by (simp add: replace_def)

lemma indexOf_first:
  "indexOf s p = Some i \<Longrightarrow> prefix p (drop i s) \<and> (\<forall>j<i. \<not> prefix p (drop j s))"
proof (induction s arbitrary: i)
  case Nil
  then show ?case by (simp split: if_splits)
next
  case (Cons c cs)
  show ?case
  proof (cases "prefix p (c # cs)")
    case True
    with Cons.prems show ?thesis by simp
  next
    case False
    with Cons.prems obtain i' where i': "indexOf cs p = Some i'" "i = Suc i'"
      by auto
    from Cons.IH [OF i'(1)] have ih: "prefix p (drop i' cs)" "\<forall>j<i'. \<not> prefix p (drop j cs)"
      by simp_all
    have "\<not> prefix p (drop j (c # cs))" if "j < i" for j
      using that False ih(2) i'(2) by (cases j) simp_all
    with ih(1) i'(2) show ?thesis by simp
  qed
qed

section \<open>Code injection at a position\<close>

text \<open>
  Claim C3, as the code has it. With \<open>pos = after\<close>, the code \<open>"A\nB"\<close>, \<open>find = "A"\<close> and
  \<open>replacement = "X"\<close> give \<open>"A\nX\nB"\<close>. With \<open>pos = before\<close> they give \<open>"\nX\nA\nB"\<close>:
  the inserted text starts with a line break of its own. Any other position returns the
  code unchanged. In both recognised cases only the first occurrence of \<open>find\<close> is
  touched, whatever \<open>find\<close> and \<open>replacement\<close> are: code without \<open>find\<close> is returned as
  it is; otherwise \<open>find\<close> stands at the position found and at no earlier one, the code
  before that position and the code after that occurrence stay in place, and between
  them stands the template (\<open>find\<close>, line break, \<open>replacement\<close> for \<open>after\<close>; line break,
  \<open>replacement\<close>, line break, \<open>find\<close> for \<open>before\<close>) with the dollar patterns of
  \<open>String.replace\<close> expanded.
\<close>

theorem generateInjectCode_positions:
  "generateInjectCode \<lparr>pos = POS_after, find = ''A'', replacement = ''X''\<rparr> ''A\<newline>B''
     = ''A\<newline>X\<newline>B''
   \<and> generateInjectCode \<lparr>pos = POS_before, find = ''A'', replacement = ''X''\<rparr> ''A\<newline>B''
     = ''\<newline>X\<newline>A\<newline>B''
   \<and> generateInjectCode \<lparr>pos = POS_other k, find = f, replacement = r\<rparr> code = code
   \<and> (indexOf code f = None \<longrightarrow>
        generateInjectCode \<lparr>pos = POS_after, find = f, replacement = r\<rparr> code = code
        \<and> generateInjectCode \<lparr>pos = POS_before, find = f, replacement = r\<rparr> code = code)
   \<and> (indexOf code f = Some i \<longrightarrow>
        prefix f (drop i code)
        \<and> (\<forall>j<i. \<not> prefix f (drop j code))
        \<and> generateInjectCode \<lparr>pos = POS_after, find = f, replacement = r\<rparr> code
          = take i code
            @ getSubstitution f (take i code) (drop (i + length f) code) (f @ ''\<newline>'' @ r)
            @ drop (i + length f) code
        \<and> generateInjectCode \<lparr>pos = POS_before, find = f, replacement = r\<rparr> code
          = take i code
            @ getSubstitution f (take i code) (drop (i + length f) code)
                (''\<newline>'' @ r @ ''\<newline>'' @ f)
            @ drop (i + length f) code)"
proof -
  have ex1: "generateInjectCode \<lparr>pos = POS_after, find = ''A'', replacement = ''X''\<rparr> ''A\<newline>B''
     = ''A\<newline>X\<newline>B''"
    by (simp add: generateInjectCode_def replace_def)
  have ex2: "generateInjectCode \<lparr>pos = POS_before, find = ''A'', replacement = ''X''\<rparr> ''A\<newline>B''
     = ''\<newline>X\<newline>A\<newline>B''"
    by (simp add: generateInjectCode_def replace_def)
  have other: "generateInjectCode \<lparr>pos = POS_other k, find = f, replacement = r\<rparr> code = code"
    by (simp add: generateInjectCode_def)
  have absent: "indexOf code f = None \<longrightarrow>
        generateInjectCode \<lparr>pos = POS_after, find = f, replacement = r\<rparr> code = code
        \<and> generateInjectCode \<lparr>pos = POS_before, find = f, replacement = r\<rparr> code = code"
    by (simp add: generateInjectCode_def replace_absent)
  have present: "indexOf code f = Some i \<longrightarrow>
        prefix f (drop i code)
        \<and> (\<forall>j<i. \<not> prefix f (drop j code))
        \<and> generateInjectCode \<lparr>pos = POS_after, find = f, replacement = r\<rparr> code
          = take i code
            @ getSubstitution f (take i code) (drop (i + length f) code) (f @ ''\<newline>'' @ r)
            @ drop (i + length f) code
        \<and> generateInjectCode \<lparr>pos = POS_before, find = f, replacement = r\<rparr> code
          = take i code
            @ getSubstitution f (take i code) (drop (i + length f) code)
                (''\<newline>'' @ r @ ''\<newline>'' @ f)
            @ drop (i + length f) code"
  proof
    assume at: "indexOf code f = Some i"
    from indexOf_first [OF at]
    have first: "prefix f (drop i code)" "\<forall>j<i. \<not> prefix f (drop j code)"
      by simp_all
    have after: "generateInjectCode \<lparr>pos = POS_after, find = f, replacement = r\<rparr> code
          = take i code
            @ getSubstitution f (take i code) (drop (i + length f) code) (f @ ''\<newline>'' @ r)
            @ drop (i + length f) code"
      using at by (simp add: generateInjectCode_def replace_def)
    have before: "generateInjectCode \<lparr>pos = POS_before, find = f, replacement = r\<rparr> code
          = take i code
            @ getSubstitution f (take i code) (drop (i + length f) code)
                (''\<newline>'' @ r @ ''\<newline>'' @ f)
            @ drop (i + length f) code"
      using at by (simp add: generateInjectCode_def replace_def)
    from first after before
    show "prefix f (drop i code)
        \<and> (\<forall>j<i. \<not> prefix f (drop j code))
        \<and> generateInjectCode \<lparr>pos = POS_after, find = f, replacement = r\<rparr> code
          = take i code
            @ getSubstitution f (take i code) (drop (i + length f) code) (f @ ''\<newline>'' @ r)
            @ drop (i + length f) code
        \<and> generateInjectCode \<lparr>pos = POS_before, find = f, replacement = r\<rparr> code
          = take i code
            @ getSubstitution f (take i code) (drop (i + length f) code)
                (''\<newline>'' @ r @ ''\<newline>'' @ f)
            @ drop (i + length f) code"
      by blast
  qed
  from ex1 ex2 other absent present show ?thesis by blast
qed

text \<open>
  The same at a code with two occurrences of \<open>find\<close> after a first line, at a replacement
  with the dollar pattern for the text after the match, and at a code without \<open>find\<close>.
\<close>

theorem generateInjectCode_positions_witness:
  "indexOf ''B\<newline>A\<newline>A'' ''A'' = Some 2
   \<and> generateInjectCode \<lparr>pos = POS_after, find = ''A'', replacement = ''X''\<rparr> ''B\<newline>A\<newline>A''
       = ''B\<newline>A\<newline>X\<newline>A''
   \<and> generateInjectCode \<lparr>pos = POS_before, find = ''A'', replacement = ''X''\<rparr> ''B\<newline>A\<newline>A''
       = ''B\<newline>\<newline>X\<newline>A\<newline>A''
   \<and> indexOf ''A\<newline>B'' ''A'' = Some 0
   \<and> generateInjectCode \<lparr>pos = POS_after, find = ''A'', replacement = [CHR 0x24, CHR 0x27]\<rparr>
        ''A\<newline>B'' = ''A\<newline>\<newline>B\<newline>B''
   \<and> indexOf ''B'' ''A'' = None
   \<and> generateInjectCode \<lparr>pos = POS_after, find = ''A'', replacement = ''X''\<rparr> ''B'' = ''B''
   \<and> generateInjectCode \<lparr>pos = POS_before, find = ''A'', replacement = ''X''\<rparr> ''B'' = ''B''"
proof -
  have i1: "indexOf ''B\<newline>A\<newline>A'' ''A'' = Some 2" by simp
  have i2: "indexOf ''A\<newline>B'' ''A'' = Some 0" by simp
  have i3: "indexOf ''B'' ''A'' = None" by simp
  from generateInjectCode_positions [of 0 "''A''" "''X''" "''B\<newline>A\<newline>A''" 2]
    generateInjectCode_positions [of 0 "''A''" "[CHR 0x24, CHR 0x27]" "''A\<newline>B''" 0]
    generateInjectCode_positions [of 0 "''A''" "''X''" "''B''" 0] i1 i2 i3
  show ?thesis by simp
qed

text \<open>Claim C3 as stated expects \<open>"X\nA\nB"\<close> for \<open>pos = before\<close>; the code returns another string.\<close>

theorem generateInjectCode_before_counterexample:
  "generateInjectCode \<lparr>pos = POS_before, find = ''A'', replacement = ''X''\<rparr> ''A\<newline>B''
     \<noteq> ''X\<newline>A\<newline>B''"
  by (simp add: generateInjectCode_def replace_def)

section \<open>The virtual page\<close>

text \<open>
  Claim C5. For \<open>{entry: "/src/main.ts", title: "App"}\<close> the result is the boilerplate
  document, byte for byte, with \<open>#TITLE#\<close>, \<open>#ENTRY#\<close> and \<open>#BODY#\<close> replaced by the title,
  the entry and the default body. Each placeholder occurs once in the boilerplate, and
  the result holds exactly one \<open><title>App</title>\<close>, one script tag for the entry and one
  \<open><div id="app"></div>\<close>. Leaving title and body out is the same as passing the empty
  title and that body.
\<close>

theorem generateVirtualPage_example:
  \<open>generateVirtualPage \<lparr>entry = ''/src/main.ts'', title = Some ''App'', body = None\<rparr>
     = ''\<newline><!DOCTYPE html>\<newline><html lang="en">\<newline><head>\<newline>''
       @ ''    <meta charset="UTF-8">\<newline>''
       @ ''    <title>'' @ ''App'' @ ''</title>\<newline>''
       @ ''    <script src="'' @ ''/src/main.ts'' @ ''" type="module"></script>\<newline>''
       @ ''</head>\<newline><body>\<newline>'' @ ''<div id="app"></div>''
       @ ''\<newline></body>\<newline></html>\<newline>''
   \<and> VIRTUAL_HTML_CONTENT
     = ''\<newline><!DOCTYPE html>\<newline><html lang="en">\<newline><head>\<newline>''
       @ ''    <meta charset="UTF-8">\<newline>''
       @ ''    <title>'' @ ''#TITLE#'' @ ''</title>\<newline>''
       @ ''    <script src="'' @ ''#ENTRY#'' @ ''" type="module"></script>\<newline>''
       @ ''</head>\<newline><body>\<newline>'' @ ''#BODY#''
       @ ''\<newline></body>\<newline></html>\<newline>''
   \<and> occurrences VIRTUAL_HTML_CONTENT ''#TITLE#'' = 1
   \<and> occurrences VIRTUAL_HTML_CONTENT ''#ENTRY#'' = 1
   \<and> occurrences VIRTUAL_HTML_CONTENT ''#BODY#'' = 1
   \<and> occurrences
         (generateVirtualPage \<lparr>entry = ''/src/main.ts'', title = Some ''App'', body = None\<rparr>)
         ''<title>App</title>'' = 1
   \<and> occurrences
         (generateVirtualPage \<lparr>entry = ''/src/main.ts'', title = Some ''App'', body = None\<rparr>)
         ''<script src="/src/main.ts" type="module">'' = 1
   \<and> occurrences
         (generateVirtualPage \<lparr>entry = ''/src/main.ts'', title = Some ''App'', body = None\<rparr>)
         ''<div id="app"></div>'' = 1
   \<and> generateVirtualPage \<lparr>entry = e, title = None, body = None\<rparr>
     = generateVirtualPage \<lparr>entry = e, title = Some [], body = Some ''<div id="app"></div>''\<rparr>\<close>
proof -
  have doc: \<open>generateVirtualPage \<lparr>entry = ''/src/main.ts'', title = Some ''App'', body = None\<rparr>
     = ''\<newline><!DOCTYPE html>\<newline><html lang="en">\<newline><head>\<newline>''
       @ ''    <meta charset="UTF-8">\<newline>''
       @ ''    <title>'' @ ''App'' @ ''</title>\<newline>''
       @ ''    <script src="'' @ ''/src/main.ts'' @ ''" type="module"></script>\<newline>''
       @ ''</head>\<newline><body>\<newline>'' @ ''<div id="app"></div>''
       @ ''\<newline></body>\<newline></html>\<newline>''\<close>
    by (simp add: generateVirtualPage_def VIRTUAL_HTML_CONTENT_def replace_def)
  have tpl: \<open>VIRTUAL_HTML_CONTENT
     = ''\<newline><!DOCTYPE html>\<newline><html lang="en">\<newline><head>\<newline>''
       @ ''    <meta charset="UTF-8">\<newline>''
       @ ''    <title>'' @ ''#TITLE#'' @ ''</title>\<newline>''
       @ ''    <script src="'' @ ''#ENTRY#'' @ ''" type="module"></script>\<newline>''
       @ ''</head>\<newline><body>\<newline>'' @ ''#BODY#''
       @ ''\<newline></body>\<newline></html>\<newline>''\<close>
    by (simp add: VIRTUAL_HTML_CONTENT_def)
  have t1: "occurrences VIRTUAL_HTML_CONTENT ''#TITLE#'' = 1"
    by (simp add: VIRTUAL_HTML_CONTENT_def)
  have t2: "occurrences VIRTUAL_HTML_CONTENT ''#ENTRY#'' = 1"
    by (simp add: VIRTUAL_HTML_CONTENT_def)
  have t3: "occurrences VIRTUAL_HTML_CONTENT ''#BODY#'' = 1"
    by (simp add: VIRTUAL_HTML_CONTENT_def)
  have o1: \<open>occurrences
         (generateVirtualPage \<lparr>entry = ''/src/main.ts'', title = Some ''App'', body = None\<rparr>)
         ''<title>App</title>'' = 1\<close>
    unfolding doc by simp
  have o2: \<open>occurrences
         (generateVirtualPage \<lparr>entry = ''/src/main.ts'', title = Some ''App'', body = None\<rparr>)
         ''<script src="/src/main.ts" type="module">'' = 1\<close>
    unfolding doc by simp
  have o3: \<open>occurrences
         (generateVirtualPage \<lparr>entry = ''/src/main.ts'', title = Some ''App'', body = None\<rparr>)
         ''<div id="app"></div>'' = 1\<close>
    unfolding doc by simp
  have dflt: \<open>generateVirtualPage \<lparr>entry = e, title = None, body = None\<rparr>
     = generateVirtualPage \<lparr>entry = e, title = Some [], body = Some ''<div id="app"></div>''\<rparr>\<close>
    by (simp add: generateVirtualPage_def)
  from doc tpl t1 t2 t3 o1 o2 o3 dflt show ?thesis by blast
qed

section \<open>A template that is not on disk\<close>

text \<open>
  Claim C6. When the file of a template-based page does not exist, \<open>readHtml\<close> returns the
  empty string, not an error, and the logger receives exactly one message; \<open>_load\<close>
  passes that result on for a page given as a path and for one given as a descriptor.
\<close>

theorem readHtml_missing_template:
  "fs rt (path_resolve rt (cwd this) (''.'' @ tp)) = None \<Longrightarrow>
     readHtml rt this \<lparr>template = tp, data = d, render = r\<rparr> log
       = (Inr [], log @ [missing_template_warning])
     \<and> load_page rt this (Own (TemplatePath tp)) log
       = (Inr (Some []), log @ [missing_template_warning])
     \<and> load_page rt this (Own (TemplatePage \<lparr>template = tp, data = d, render = r\<rparr>)) log
       = (Inr (Some []), log @ [missing_template_warning])"
  by (simp add: readHtml_def load_page_def existsSync_def generatePageOptions_def)

text \<open>The page \<open>gone\<close> of a project that has no file \<open>/work/gone.html\<close>.\<close>

theorem readHtml_missing_template_witness:
  "fs example_runtime (path_resolve example_runtime (cwd missing_base) (''.'' @ ''/gone.html'')) = None
   \<and> readHtml example_runtime missing_base
        \<lparr>template = ''/gone.html'', data = None, render = None\<rparr> []
       = (Inr [], [''[vite-plugin-virtual-html]: template file must exist!''])
   \<and> Base_load example_runtime missing_base ''/gone.html'' []
       = (Inr (Some []), [''[vite-plugin-virtual-html]: template file must exist!''])"
proof -
  have absent: "fs example_runtime
      (path_resolve example_runtime (cwd missing_base) (''.'' @ ''/gone.html'')) = None"
    by (simp add: example_runtime_def missing_base_def Base_new_def)
  have picked: "Base_load example_runtime missing_base ''/gone.html'' []
      = load_page example_runtime missing_base (Own (TemplatePath ''/gone.html'')) []"
    by (simp add: load_defs missing_base_def)
  from readHtml_missing_template [OF absent, of None None "[]"] absent picked
  show ?thesis by (simp add: missing_template_warning_def)
qed

section \<open>The default render function without its engine\<close>

lemma defaultRender_log: "snd (defaultRender rt tpl d log) = log"
  by (simp add: defaultRender_def split: option.splits sum.splits)

lemma defaultRender_calls_log:
  "foldl (\<lambda>l (t, d). snd (defaultRender rt t d l)) log calls = log"
  by (induction calls arbitrary: log) (auto simp: defaultRender_log)

text \<open>
  Claim C8. Without the module \<open>ejs\<close>, \<open>defaultRender\<close> returns the template text
  unmodified, and no error reaches the caller. It never writes to the logger, so after
  any sequence of calls the log is what it was: the warning about the missing module
  appears at most once (not at all).
\<close>

theorem defaultRender_without_ejs:
  "ejs rt = None \<Longrightarrow>
     defaultRender rt tpl d log = (tpl, log)
     \<and> call_render rt DefaultRender tpl d log = (Inr tpl, log)
     \<and> foldl (\<lambda>l (t, d). snd (defaultRender rt t d l)) log calls = log"
proof -
  assume none: "ejs rt = None"
  have one: "defaultRender rt tpl d log = (tpl, log)"
    using none by (simp add: defaultRender_def)
  have called: "call_render rt DefaultRender tpl d log = (Inr tpl, log)"
    using one by (simp add: call_render_def)
  from one called defaultRender_calls_log show ?thesis by blast
qed

theorem defaultRender_without_ejs_witness:
  "ejs example_runtime = None
   \<and> defaultRender example_runtime ''<%= title %>'' Map.empty [] = (''<%= title %>'', [])
   \<and> call_render example_runtime DefaultRender ''<%= title %>'' Map.empty []
       = (Inr ''<%= title %>'', [])
   \<and> foldl (\<lambda>l (t, d). snd (defaultRender example_runtime t d l)) []
        [(''a'', Map.empty), (''b'', Map.empty)] = []"
proof -
  have none: "ejs example_runtime = None" by (simp add: example_runtime_def)
  from defaultRender_without_ejs [OF none, of "''<%= title %>''" Map.empty "[]"
      "[(''a'', Map.empty), (''b'', Map.empty)]"] none
  show ?thesis by simp
qed

section \<open>The patterns of auto-discovery\<close>

lemma foldl_set_add_set: "set (foldl set_add acc xs) = set acc \<union> set xs"
  by (induction xs arbitrary: acc) (auto simp: set_add_def)

lemma foldl_set_add_distinct: "distinct acc \<Longrightarrow> distinct (foldl set_add acc xs)"
  by (induction xs arbitrary: acc) (auto simp: set_add_def)

lemma findAllHtmlInProject_fold:
  "findAllHtmlInProject rt extra =
     foldl (\<lambda>found file. set_prop found (page_name file) (TemplatePath (''/'' @ file)))
       Map.empty (glob_sync rt (realPattern extra))"
  by (simp add: findAllHtmlInProject_def page_name_def)

lemma scan_dom:
  "dom (foldl (\<lambda>found file. set_prop found (nm file) (vl file)) m files)
     = dom m \<union> (nm ` set files - {''__proto__''})"
  by (induction files arbitrary: m) (auto simp: set_prop_def)

lemma scan_entries:
  "foldl (\<lambda>found file. set_prop found (nm file) (vl file)) m files k = Some v \<Longrightarrow>
     m k = Some v \<or> (\<exists>file\<in>set files. k = nm file \<and> v = vl file)"
proof (induction files arbitrary: m)
  case Nil
  then show ?case by simp
next
  case (Cons x xs)
  from Cons.prems
  have "foldl (\<lambda>found file. set_prop found (nm file) (vl file))
      (set_prop m (nm x) (vl x)) xs k = Some v"
    by simp
  from Cons.IH [OF this]
  show ?case by (auto simp: set_prop_def split: if_splits)
qed

text \<open>
  Claim C9. The default patterns are \<open>**/*.html\<close> without \<open>node_modules\<close> and without
  dot-directories. With a non-empty list of extra patterns, the patterns scanned are the
  union of the default ones and the extra ones, each once; with an empty list they are
  exactly the default ones. The scan is \<open>glob.sync\<close> on these patterns: the names in the
  table found are the names of the files it returns for them (a file named \<open>__proto__\<close>
  leaves no entry), every entry is such a file under its name with its path after a
  slash, and a single file returned gives the table with that one entry.
\<close>

theorem realPattern_union:
  "DEFAULT_GLOB_PATTERN = [''**/*.html'', ''!node_modules/**/*.html'', ''!.**/*.html'']
   \<and> (extra \<noteq> [] \<longrightarrow>
        set (realPattern extra) = set DEFAULT_GLOB_PATTERN \<union> set extra
        \<and> distinct (realPattern extra))
   \<and> (extra = [] \<longrightarrow> realPattern extra = DEFAULT_GLOB_PATTERN)
   \<and> dom (findAllHtmlInProject rt extra)
       = page_name ` set (glob_sync rt (realPattern extra)) - {''__proto__''}
   \<and> (findAllHtmlInProject rt extra k = Some v \<longrightarrow>
        (\<exists>file\<in>set (glob_sync rt (realPattern extra)).
           k = page_name file \<and> v = TemplatePath (''/'' @ file)))
   \<and> (glob_sync rt (realPattern extra) = [file] \<and> page_name file \<noteq> ''__proto__'' \<longrightarrow>
        findAllHtmlInProject rt extra = [page_name file \<mapsto> TemplatePath (''/'' @ file)])"
proof -
  have dflt: "DEFAULT_GLOB_PATTERN
      = [''**/*.html'', ''!node_modules/**/*.html'', ''!.**/*.html'']"
    by (simp add: DEFAULT_GLOB_PATTERN_def)
  have union: "extra \<noteq> [] \<longrightarrow>
        set (realPattern extra) = set DEFAULT_GLOB_PATTERN \<union> set extra
        \<and> distinct (realPattern extra)"
    by (simp add: realPattern_def foldl_set_add_set foldl_set_add_distinct)
  have empty: "extra = [] \<longrightarrow> realPattern extra = DEFAULT_GLOB_PATTERN"
    by (simp add: realPattern_def)
  have names: "dom (findAllHtmlInProject rt extra)
       = page_name ` set (glob_sync rt (realPattern extra)) - {''__proto__''}"
    unfolding findAllHtmlInProject_fold scan_dom by simp
  have entries: "findAllHtmlInProject rt extra k = Some v \<longrightarrow>
        (\<exists>file\<in>set (glob_sync rt (realPattern extra)).
           k = page_name file \<and> v = TemplatePath (''/'' @ file))"
    unfolding findAllHtmlInProject_fold
    using scan_entries [of page_name "\<lambda>file. TemplatePath (''/'' @ file)" Map.empty
        "glob_sync rt (realPattern extra)" k v]
    by auto
  have single: "glob_sync rt (realPattern extra) = [file] \<and> page_name file \<noteq> ''__proto__'' \<longrightarrow>
        findAllHtmlInProject rt extra = [page_name file \<mapsto> TemplatePath (''/'' @ file)]"
    unfolding findAllHtmlInProject_fold by (simp add: set_prop_def)
  from dflt union empty names entries single show ?thesis by blast
qed

text \<open>
  A project whose \<open>glob.sync\<close> tells the lists of patterns apart: the extra patterns
  alone find nothing, the union finds \<open>pages/about.html\<close>, the default patterns find
  \<open>index.html\<close>.
\<close>

theorem realPattern_union_witness:
  "[''pages/*.htm'', ''**/*.html'', ''pages/*.htm''] \<noteq> []
   \<and> realPattern [''pages/*.htm'', ''**/*.html'', ''pages/*.htm'']
       = [''**/*.html'', ''!node_modules/**/*.html'', ''!.**/*.html'', ''pages/*.htm'']
   \<and> set (realPattern [''pages/*.htm'', ''**/*.html'', ''pages/*.htm''])
       = set DEFAULT_GLOB_PATTERN \<union> set [''pages/*.htm'', ''**/*.html'', ''pages/*.htm'']
   \<and> distinct (realPattern [''pages/*.htm'', ''**/*.html'', ''pages/*.htm''])
   \<and> glob_sync scan_runtime (realPattern [''pages/*.htm'', ''**/*.html'', ''pages/*.htm''])
       = [''pages/about.html'']
   \<and> glob_sync scan_runtime [''pages/*.htm'', ''**/*.html'', ''pages/*.htm''] = []
   \<and> page_name ''pages/about.html'' = ''about''
   \<and> findAllHtmlInProject scan_runtime [''pages/*.htm'', ''**/*.html'', ''pages/*.htm'']
       = [''about'' \<mapsto> TemplatePath ''/pages/about.html'']
   \<and> realPattern [] = DEFAULT_GLOB_PATTERN
   \<and> glob_sync scan_runtime (realPattern []) = [''index.html'']
   \<and> page_name ''index.html'' = ''index''
   \<and> findAllHtmlInProject scan_runtime [] = [''index'' \<mapsto> TemplatePath ''/index.html'']"
proof -
  have listed: "realPattern [''pages/*.htm'', ''**/*.html'', ''pages/*.htm'']
       = [''**/*.html'', ''!node_modules/**/*.html'', ''!.**/*.html'', ''pages/*.htm'']"
    by (simp add: realPattern_def DEFAULT_GLOB_PATTERN_def set_add_def)
  have dflt: "realPattern [] = [''**/*.html'', ''!node_modules/**/*.html'', ''!.**/*.html'']"
    by (simp add: realPattern_def DEFAULT_GLOB_PATTERN_def)
  have g1: "glob_sync scan_runtime
      (realPattern [''pages/*.htm'', ''**/*.html'', ''pages/*.htm'']) = [''pages/about.html'']"
    unfolding listed by (simp add: scan_runtime_def)
  have g2: "glob_sync scan_runtime (realPattern []) = [''index.html'']"
    unfolding dflt by (simp add: scan_runtime_def)
  have g3: "glob_sync scan_runtime [''pages/*.htm'', ''**/*.html'', ''pages/*.htm''] = []"
    by (simp add: scan_runtime_def)
  have n1: "page_name ''pages/about.html'' = ''about''"
    by (simp add: page_name_def js_split_def replace_def)
  have n2: "page_name ''index.html'' = ''index''"
    by (simp add: page_name_def js_split_def replace_def)
  from realPattern_union [of "[''pages/*.htm'', ''**/*.html'', ''pages/*.htm'']"
      scan_runtime "''about''" "TemplatePath ''/pages/about.html''" "''pages/about.html''"]
    realPattern_union [of "[]" scan_runtime "''index''" "TemplatePath ''/index.html''"
      "''index.html''"]
    listed g1 g2 g3 n1 n2
  show ?thesis by simp
qed


section \<open>The middleware of the dev server\<close>

lemma serve_url_pass:
  "u \<noteq> ''/'' \<Longrightarrow> \<not> endsWith u ''/'' \<Longrightarrow> \<not> endsWith u ''.html'' \<Longrightarrow>
     serve_url rt this server u log = ([CallNext], log)"
  by (simp add: serve_url_def)

lemma respond_first_event:
  "\<exists>rest. fst (respond rt this server t log) = CallLoad (normalizePath rt t) # rest"
  by (simp add: respond_def Let_def split: prod.splits sum.splits option.splits)

lemma endsWith_html: "endsWith (''/'' @ ip @ ''.html'') ''.html''"
  by (simp add: endsWith_def suffix_def)

lemma serve_url_html:
  "endsWith t ''.html'' \<Longrightarrow>
     serve_url rt this server t log
       = respond rt this server
           (if t = ''/'' \<or> t = ''/index.html''
            then ''/'' @ indexPage (base this) @ ''.html'' else t) log"
  by (simp add: serve_url_def)

lemma serve_url_root:
  "serve_url rt this server ''/'' log
     = respond rt this server (''/'' @ indexPage (base this) @ ''.html'') log"
  by (simp add: serve_url_def)

lemma serve_url_index_html:
  "serve_url rt this server ''/index.html'' log
     = respond rt this server (''/'' @ indexPage (base this) @ ''.html'') log"
  by (simp add: serve_url_def endsWith_def suffix_to_prefix)

lemma serve_url_index_page:
  "serve_url rt this server (''/'' @ indexPage (base this) @ ''.html'') log
     = respond rt this server (''/'' @ indexPage (base this) @ ''.html'') log"
proof -
  define t where "t = ''/'' @ indexPage (base this) @ ''.html''"
  have et: "endsWith t ''.html''"
    unfolding t_def by (rule endsWith_html)
  have same: "(if t = ''/'' \<or> t = ''/index.html''
               then ''/'' @ indexPage (base this) @ ''.html'' else t) = t"
    by (simp add: t_def)
  show ?thesis
    using serve_url_html [OF et, of rt this server log] same unfolding t_def by simp
qed

lemma serve_url_index:
  assumes "u = ''/'' \<or> u = ''/index.html''"
  shows "serve_url rt this server u log
       = serve_url rt this server (''/'' @ indexPage (base this) @ ''.html'') log"
  using assms serve_url_root [of rt this server log]
    serve_url_index_html [of rt this server log]
    serve_url_index_page [of rt this server log]
  by metis

lemma serve_url_first_event:
  assumes "u = ''/'' \<or> u = ''/index.html''"
  shows "\<exists>rest. fst (serve_url rt this server u log)
       = CallLoad (normalizePath rt (''/'' @ indexPage (base this) @ ''.html'')) # rest"
  using assms serve_url_root [of rt this server log]
    serve_url_index_html [of rt this server log]
    respond_first_event [of rt this server "''/'' @ indexPage (base this) @ ''.html''" log]
  by metis

text \<open>
  Claim C7. For an effective URL that is not \<open>/\<close> and ends neither with a slash nor with
  \<open>.html\<close>, the middleware calls \<open>next()\<close> and nothing else: nothing is loaded, nothing
  logged. For the effective URLs \<open>/\<close> and \<open>/index.html\<close> the first thing it does is to
  call \<open>_load\<close> with (the normalised) \<open>/\<close> + indexPage + \<open>.html\<close>, and the whole request
  is handled as a request for that URL.
\<close>

theorem middleware_url_gate:
  "effective_url this server req = Inr u \<Longrightarrow>
     (u \<noteq> ''/'' \<and> \<not> endsWith u ''/'' \<and> \<not> endsWith u ''.html'' \<longrightarrow>
        middleware rt this server req log = ([CallNext], log))
     \<and> (u = ''/'' \<or> u = ''/index.html'' \<longrightarrow>
          (\<exists>rest. fst (middleware rt this server req log)
             = CallLoad (normalizePath rt (''/'' @ indexPage (base this) @ ''.html'')) # rest)
          \<and> middleware rt this server req log
             = serve_url rt this server (''/'' @ indexPage (base this) @ ''.html'') log)"
proof -
  assume eff: "effective_url this server req = Inr u"
  then have m: "middleware rt this server req log = serve_url rt this server u log"
    by (simp add: middleware_def)
  have pass: "u \<noteq> ''/'' \<and> \<not> endsWith u ''/'' \<and> \<not> endsWith u ''.html'' \<longrightarrow>
        middleware rt this server req log = ([CallNext], log)"
    unfolding m by (simp add: serve_url_pass)
  have index: "u = ''/'' \<or> u = ''/index.html'' \<longrightarrow>
          (\<exists>rest. fst (middleware rt this server req log)
             = CallLoad (normalizePath rt (''/'' @ indexPage (base this) @ ''.html'')) # rest)
          \<and> middleware rt this server req log
             = serve_url rt this server (''/'' @ indexPage (base this) @ ''.html'') log"
    unfolding m using serve_url_first_event [of u rt this server log]
      serve_url_index [of u rt this server log] by blast
  from pass index show ?thesis by (rule conjI)
qed

text \<open>A request for a script passes; a request for \<open>/\<close> loads \<open>/index.html\<close>.\<close>

theorem middleware_url_gate_witness:
  "effective_url example_serve example_server \<lparr>originalUrl = None, url = Some ''/assets/app.js?v=1''\<rparr>
     = Inr ''/assets/app.js''
   \<and> middleware example_runtime example_serve example_server
        \<lparr>originalUrl = None, url = Some ''/assets/app.js?v=1''\<rparr> [] = ([CallNext], [])
   \<and> effective_url example_serve example_server \<lparr>originalUrl = Some ''/'', url = Some ''/''\<rparr>
     = Inr ''/''
   \<and> middleware example_runtime example_serve example_server
        \<lparr>originalUrl = Some ''/'', url = Some ''/''\<rparr> []
     = ([CallLoad ''/index.html'', CallTransform [] ''/index.html'', ResEnd [], CallNext], [])"
proof -
  have e1: "effective_url example_serve example_server
       \<lparr>originalUrl = None, url = Some ''/assets/app.js?v=1''\<rparr> = Inr ''/assets/app.js''"
    by (simp add: effective_url_def generateUrl_def js_split_def example_serve_def
        example_server_def)
  have e2: "effective_url example_serve example_server
       \<lparr>originalUrl = Some ''/'', url = Some ''/''\<rparr> = Inr ''/''"
    by (simp add: effective_url_def generateUrl_def js_split_def example_serve_def
        example_server_def endsWith_def)
  have shape: "''/assets/app.js'' \<noteq> ''/'' \<and> \<not> endsWith ''/assets/app.js'' ''/''
      \<and> \<not> endsWith ''/assets/app.js'' ''.html''"
    by (simp add: endsWith_def suffix_to_prefix)
  have served: "serve_url example_runtime example_serve example_server
       (''/'' @ indexPage (base example_serve) @ ''.html'') []
     = ([CallLoad ''/index.html'', CallTransform [] ''/index.html'', ResEnd [], CallNext], [])"
    by (simp add: load_defs example_base_def example_serve_def example_server_def
        serve_url_def respond_def Base_transform_def has_prop_def js_split_def
        DEFAULT_INJECTCODE_ALL_def)
  from middleware_url_gate [OF e1, of example_runtime "[]"]
    middleware_url_gate [OF e2, of example_runtime "[]"] e1 e2 shape served
  show ?thesis by simp
qed

section \<open>The order of the injection rules\<close>

text \<open>
  Claim C2, at a configuration with a wildcard rule (insert \<open>X\<close> after \<open>A\<close>) and a rule for
  \<open>index.html\<close> (insert \<open>Y\<close> after \<open>B\<close>). \<open>_transform\<close> hands the original code to both
  rules and keeps the result of the second, so the wildcard's insertion is lost: the
  result is \<open>"A\nB\nY"\<close>, where the second rule applied to the output of the first gives
  \<open>"A\nX\nB\nY"\<close>.
\<close>

theorem Base_transform_drops_wildcard:
  "injectCode inject_base ''*'' = Some \<lparr>pos = POS_after, find = ''A'', replacement = ''X''\<rparr>
   \<and> injectCode inject_base ''index.html''
       = Some \<lparr>pos = POS_after, find = ''B'', replacement = ''Y''\<rparr>
   \<and> Base_transform inject_base ''A\<newline>B'' ''/index.html'' = Some ''A\<newline>B\<newline>Y''
   \<and> generateInjectCode \<lparr>pos = POS_after, find = ''B'', replacement = ''Y''\<rparr>
        (generateInjectCode \<lparr>pos = POS_after, find = ''A'', replacement = ''X''\<rparr> ''A\<newline>B'')
       = ''A\<newline>X\<newline>B\<newline>Y''"
  by (simp add: inject_base_def example_options_def Base_new_def Base_transform_def
      Base_filter_def endsWith_def suffix_to_prefix js_split_def has_prop_def get_prop_def
      object_prototype_keys_def DEFAULT_INJECTCODE_ALL_def generateInjectCode_of_def
      generateInjectCode_def replace_def Let_def)


section \<open>Searching in strings\<close>

lemma indexOf_None_iff: "indexOf s p = None \<longleftrightarrow> \<not> sublist p s"
  by (induction s) (auto simp: sublist_Cons_right)

lemma indexOf_occurrence: "indexOf (xs @ p @ ys) p \<noteq> None"
  by (simp add: indexOf_None_iff)

lemma indexOf_skip_prefix:
  "c \<notin> set xs \<Longrightarrow>
     indexOf (xs @ t) (c # p) = map_option (\<lambda>i. length xs + i) (indexOf t (c # p))"
  by (induction xs) (auto simp: map_option_case split: option.splits)

lemma indexOf_across_separator:
  "indexOf xs p = None \<Longrightarrow> c \<notin> set p \<Longrightarrow>
     indexOf (xs @ c # ys) p = map_option (\<lambda>i. Suc (length xs + i)) (indexOf ys p)"
proof (induction xs)
  case Nil
  then show ?case by (cases p) (auto split: if_splits)
next
  case (Cons x xs)
  from Cons.prems have np: "\<not> prefix p (x # xs)" and rest: "indexOf xs p = None"
    by (auto split: if_splits)
  have "\<not> prefix p ((x # xs) @ c # ys)"
  proof
    assume "prefix p ((x # xs) @ c # ys)"
    then consider "prefix p (x # xs)" | us where "p = (x # xs) @ us" "prefix us (c # ys)"
      unfolding prefix_append by blast
    then show False
    proof cases
      case 1
      with np show False by simp
    next
      case 2
      show False
      proof (cases us)
        case Nil
        with 2 np show False by simp
      next
        case (Cons u us')
        with 2 have "u = c" by simp
        with 2 Cons have "c \<in> set p" by simp
        with Cons.prems show False by simp
      qed
    qed
  qed
  then show ?case
    using Cons.IH [OF rest Cons.prems(2)] by (simp add: option.map_comp o_def)
qed

lemma indexOf_first_pattern:
  "indexOf xs (a # p') = None \<Longrightarrow> a \<notin> set p' \<Longrightarrow>
     indexOf (xs @ (a # p') @ ys) (a # p') = Some (length xs)"
proof (induction xs)
  case Nil
  then show ?case by simp
next
  case (Cons x xs)
  from Cons.prems have np: "\<not> prefix (a # p') (x # xs)" and rest: "indexOf xs (a # p') = None"
    by (auto split: if_splits)
  have "\<not> prefix (a # p') ((x # xs) @ (a # p') @ ys)"
  proof
    assume "prefix (a # p') ((x # xs) @ (a # p') @ ys)"
    then consider "prefix (a # p') (x # xs)"
      | us where "a # p' = (x # xs) @ us" "prefix us ((a # p') @ ys)"
      unfolding prefix_append by blast
    then show False
    proof cases
      case 1
      with np show False by simp
    next
      case 2
      show False
      proof (cases us)
        case Nil
        with 2 np show False by simp
      next
        case (Cons u us')
        with 2 have "u = a" by simp
        moreover from 2 Cons have "u \<in> set p'" by auto
        ultimately show False using Cons.prems(2) by simp
      qed
    qed
  qed
  then show ?case
    using Cons.IH [OF rest Cons.prems(2)] by simp
qed

lemma replace_at:
  "indexOf (xs @ p @ ys) p = Some (length xs) \<Longrightarrow> replace (xs @ p @ ys) p [] = xs @ ys"
  by (simp add: replace_def)

lemma replace_empty_pattern: "replace s [] [] = s"
  by (cases s) (simp_all add: replace_def)


lemma replace_Nil: "replace [] p [] = []"
  by (simp add: replace_def)

lemma getHtmlName_no_root:
  "indexOf s (cwd this) = None \<Longrightarrow>
     getHtmlName rt this s None =
       (if startsWith (replace s ''.html'' []) ''/''
        then substring (replace s ''.html'' []) 1 (length (replace s ''.html'' []))
        else replace s ''.html'' [])"
  by (simp add: getHtmlName_def replace_Nil replace_absent replace_empty_pattern Let_def)

lemma strip_html_suffix:
  assumes "indexOf n ''.html'' = None"
  shows "replace (''/'' @ n @ ''.html'') ''.html'' [] = ''/'' @ n"
proof -
  have "indexOf (''/'' @ n) ''.html'' = None"
    using assms by simp
  then have "indexOf ((''/'' @ n) @ ''.html'' @ []) ''.html'' = Some (length (''/'' @ n))"
    by (intro indexOf_first_pattern) simp_all
  from replace_at [OF this] show ?thesis by simp
qed

section \<open>Normalising a name twice\<close>

lemma getHtmlName_fixed:
  assumes "\<not> startsWith q ''/''"
    and "indexOf q ''.html'' = None"
    and "indexOf q (cwd this) = None"
    and "root_prefix rt this root = [] \<or> indexOf q (root_prefix rt this root) = None"
  shows "getHtmlName rt this q root = q"
proof -
  have name: "getHtmlName rt this q root =
      (let result = replace (replace (replace q (cwd this) []) ''.html'' [])
                      (root_prefix rt this root) []
       in if startsWith result ''/'' then substring result 1 (length result) else result)"
    by (simp add: getHtmlName_def root_prefix_def Let_def)
  have "replace q (root_prefix rt this root) [] = q"
    using assms(4) by (auto simp: replace_empty_pattern replace_absent)
  then have "replace (replace (replace q (cwd this) []) ''.html'' [])
      (root_prefix rt this root) [] = q"
    by (simp add: replace_absent assms(2,3))
  then show ?thesis
    unfolding name using assms(1) by (simp add: Let_def)
qed

text \<open>
  Claim C4, as the code has it. Normalising the result of \<open>getHtmlName\<close> once more
  changes nothing when that result has no leading slash, contains \<open>.html\<close> nowhere (not
  only not at its end), and contains neither the working directory nor the text removed
  for the configured root.
\<close>

theorem getHtmlName_idempotent:
  assumes "\<not> startsWith (getHtmlName rt this p root) ''/''"
    and "indexOf (getHtmlName rt this p root) ''.html'' = None"
    and "indexOf (getHtmlName rt this p root) (cwd this) = None"
    and "root_prefix rt this root = []
         \<or> indexOf (getHtmlName rt this p root) (root_prefix rt this root) = None"
  shows "getHtmlName rt this (getHtmlName rt this p root) root = getHtmlName rt this p root"
  using assms by (rule getHtmlName_fixed)

text \<open>
  A path below the root \<open>/work/site\<close> of the example project: its name is \<open>about\<close>, and
  \<open>about\<close> is its own name.
\<close>

theorem getHtmlName_idempotent_witness:
  "getHtmlName example_runtime example_base ''/work/site/about.html'' (Some ''/work/site'')
     = ''about''
   \<and> \<not> startsWith ''about'' ''/''
   \<and> indexOf ''about'' ''.html'' = None
   \<and> indexOf ''about'' (cwd example_base) = None
   \<and> root_prefix example_runtime example_base (Some ''/work/site'') = ''/site/''
   \<and> indexOf ''about'' ''/site/'' = None
   \<and> getHtmlName example_runtime example_base ''about'' (Some ''/work/site'') = ''about''"
proof -
  have name: "getHtmlName example_runtime example_base ''/work/site/about.html''
      (Some ''/work/site'') = ''about''"
    by (simp add: load_defs example_base_def)
  have pre: "root_prefix example_runtime example_base (Some ''/work/site'') = ''/site/''"
    by (simp add: load_defs example_base_def root_prefix_def)
  have wd: "cwd example_base = ''/work''"
    by (simp add: load_defs example_base_def)
  have c1: "\<not> startsWith ''about'' ''/''" by (simp add: startsWith_def)
  have c2: "indexOf ''about'' ''.html'' = None" by simp
  have c3: "indexOf ''about'' (cwd example_base) = None" unfolding wd by simp
  have c4: "indexOf ''about'' ''/site/'' = None" by simp
  have "getHtmlName example_runtime example_base
      (getHtmlName example_runtime example_base ''/work/site/about.html'' (Some ''/work/site''))
      (Some ''/work/site'')
    = getHtmlName example_runtime example_base ''/work/site/about.html'' (Some ''/work/site'')"
    by (rule getHtmlName_idempotent) (simp_all add: name pre c1 wd)
  then show ?thesis
    using name pre c1 c2 c3 c4 by simp
qed

text \<open>
  Claim C4 as stated asks only for a result without a leading slash and without the
  suffix \<open>.html\<close>. \<open>getHtmlName\<close> removes the first \<open>.html\<close> and the first occurrence of
  the working directory wherever they are, so such a result can still change: here are
  one with \<open>.html\<close> inside and one with the working directory inside.
\<close>

theorem getHtmlName_idempotent_counterexample:
  "getHtmlName example_runtime example_base ''/archive.html/page.html/'' None
     = ''archive/page.html/''
   \<and> \<not> startsWith ''archive/page.html/'' ''/''
   \<and> \<not> endsWith ''archive/page.html/'' ''.html''
   \<and> getHtmlName example_runtime example_base ''archive/page.html/'' None = ''archive/page/''
   \<and> getHtmlName example_runtime example_base ''/work/a/work/b.html'' None = ''a/work/b''
   \<and> \<not> startsWith ''a/work/b'' ''/''
   \<and> \<not> endsWith ''a/work/b'' ''.html''
   \<and> getHtmlName example_runtime example_base ''a/work/b'' None = ''a/b''"
  by (simp add: example_runtime_def example_base_def example_options_def Base_new_def
      getHtmlName_def replace_def startsWith_def endsWith_def substring_def suffix_to_prefix
      Let_def)

section \<open>The exact name comes first\<close>

lemma or_first: "truthy a \<Longrightarrow> js_or a b = a"
  by (simp add: js_or_def)

lemma or_second: "\<not> truthy a \<Longrightarrow> js_or a b = b"
  by (simp add: js_or_def)

lemma get_prop_own: "obj k = Some v \<Longrightarrow> get_prop obj k = Own v"
  by (simp add: get_prop_def)

text \<open>
  Claim C10, as the code has it. When the table has a definition under the exact
  normalised name and that definition is not the empty string, it is the one loaded,
  whatever the table holds under the derived keys.
\<close>

theorem exact_name_priority:
  "Base_filter ident \<Longrightarrow>
   pages this (getHtmlName rt this ident (config_root this)) = Some d \<Longrightarrow>
   truthy (Own d) \<Longrightarrow>
     pageOption rt this ident = Own d
     \<and> Base_load rt this ident log = load_page rt this (Own d) log"
  by (simp add: pageOption_def Base_load_def Let_def get_prop_own or_first)

text \<open>A table with \<open>about\<close> and \<open>about/\<close>: the id \<open>/about.html\<close> loads the former.\<close>

theorem exact_name_priority_witness:
  "Base_filter ''/about.html''
   \<and> getHtmlName example_runtime priority_base ''/about.html'' (config_root priority_base)
       = ''about''
   \<and> pages priority_base ''about'' = Some (TemplatePath ''/about.html'')
   \<and> pages priority_base ''about/'' = Some (VirtualPage example_main)
   \<and> truthy (Own (TemplatePath ''/about.html'' :: unit VirtualHtmlPage))
   \<and> pageOption example_runtime priority_base ''/about.html'' = Own (TemplatePath ''/about.html'')
   \<and> Base_load example_runtime priority_base ''/about.html'' []
       = (Inr (Some ''<p>about</p>''), [])"
proof -
  have f: "Base_filter ''/about.html''"
    by (simp add: Base_filter_def)
  have name: "getHtmlName example_runtime priority_base ''/about.html''
      (config_root priority_base) = ''about''"
    by (simp add: load_defs priority_base_def)
  have stored: "pages priority_base ''about'' = Some (TemplatePath ''/about.html'')"
    "pages priority_base ''about/'' = Some (VirtualPage example_main)"
    by (simp_all add: priority_base_def Base_new_def example_options_def)
  have stored': "pages priority_base
      (getHtmlName example_runtime priority_base ''/about.html'' (config_root priority_base))
      = Some (TemplatePath ''/about.html'')"
    unfolding name by (rule stored(1))
  have tr: "truthy (Own (TemplatePath ''/about.html'' :: unit VirtualHtmlPage))"
    by simp
  have loaded: "load_page example_runtime priority_base (Own (TemplatePath ''/about.html'')) []
      = (Inr (Some ''<p>about</p>''), [])"
    by (simp add: load_defs priority_base_def)
  from exact_name_priority [OF f stored' tr, of "[]"] f name stored tr loaded
  show ?thesis by simp
qed

text \<open>
  Claim C10 as stated covers every table. The probing uses \<open>||\<close>, which skips an empty
  string: with \<open>''\<close> under \<open>about\<close> and a virtual page under \<open>about/\<close>, the id
  \<open>/about.html\<close> loads the virtual page.
\<close>

theorem exact_name_empty_counterexample:
  "Base_filter ''/about.html''
   \<and> getHtmlName example_runtime shadowed_base ''/about.html'' (config_root shadowed_base)
       = ''about''
   \<and> pages shadowed_base ''about'' = Some (TemplatePath [])
   \<and> pages shadowed_base ''about/'' = Some (VirtualPage example_main)
   \<and> pageOption example_runtime shadowed_base ''/about.html'' = Own (VirtualPage example_main)
   \<and> Base_load example_runtime shadowed_base ''/about.html'' []
       = (Inr (Some (generateVirtualPage example_main)), [])"
  by (simp add: shadowed_base_def example_runtime_def example_options_def Base_new_def
      Base_load_def Base_filter_def pageOption_def load_page_def getHtmlName_def replace_def
      startsWith_def substring_def get_prop_def js_or_def object_prototype_keys_def Let_def)

section \<open>Trailing slash and index\<close>

lemma getHtmlName_leading_slash:
  assumes "indexOf s (cwd this) = None" "replace s ''.html'' [] = CHR ''/'' # r"
  shows "getHtmlName rt this s None = r"
  unfolding getHtmlName_no_root [OF assms(1)] assms(2)
  by (simp add: startsWith_def substring_def)

lemma getHtmlName_html:
  assumes "indexOf (''/'' @ n @ ''.html'') (cwd this) = None" "indexOf n ''.html'' = None"
  shows "getHtmlName rt this (''/'' @ n @ ''.html'') None = n"
proof (rule getHtmlName_leading_slash [OF assms(1)])
  show "replace (''/'' @ n @ ''.html'') ''.html'' [] = CHR ''/'' # n"
    using strip_html_suffix [OF assms(2)] by simp
qed

lemma getHtmlName_slash:
  assumes "indexOf (''/'' @ n @ ''/'') (cwd this) = None" "indexOf n ''.html'' = None"
  shows "getHtmlName rt this (''/'' @ n @ ''/'') None = n @ ''/''"
proof (rule getHtmlName_leading_slash [OF assms(1)])
  have "indexOf (''/'' @ n @ ''/'') ''.html'' = None"
    using assms(2) by (simp add: indexOf_across_separator)
  then have "replace (''/'' @ n @ ''/'') ''.html'' [] = ''/'' @ n @ ''/''"
    by (rule replace_absent)
  then show "replace (''/'' @ n @ ''/'') ''.html'' [] = CHR ''/'' # n @ ''/''"
    by simp
qed

lemma getHtmlName_index_html:
  assumes "indexOf (''/'' @ n @ ''/index.html'') (cwd this) = None" "indexOf n ''.html'' = None"
  shows "getHtmlName rt this (''/'' @ n @ ''/index.html'') None = n @ ''/index''"
proof (rule getHtmlName_leading_slash [OF assms(1)])
  have "indexOf (''/'' @ n @ ''/index'') ''.html'' = None"
    using assms(2) by (simp add: indexOf_across_separator)
  then have "indexOf ((''/'' @ n @ ''/index'') @ ''.html'' @ []) ''.html''
      = Some (length (''/'' @ n @ ''/index''))"
    by (intro indexOf_first_pattern) simp_all
  from replace_at [OF this]
  show "replace (''/'' @ n @ ''/index.html'') ''.html'' [] = CHR ''/'' # n @ ''/index''"
    by simp
qed

lemma replace_no_double_slash:
  "CHR ''/'' \<notin> set n \<Longrightarrow> indexOf t ''//'' = None \<Longrightarrow> replace (n @ t) ''//'' ''/'' = n @ t"
  by (simp add: replace_absent indexOf_skip_prefix)

lemma replace_double_slash:
  "CHR ''/'' \<notin> set n \<Longrightarrow> replace (n @ ''//'' @ t) ''//'' ''/'' = n @ ''/'' @ t"
  by (simp add: replace_def indexOf_skip_prefix)

lemma strip_index:
  assumes "indexOf n ''index'' = None"
  shows "replace (n @ ''/index'') ''index'' [] = n @ ''/''"
proof -
  have "indexOf (n @ ''/'') ''index'' = None"
    using assms by (simp add: indexOf_across_separator)
  then have "indexOf ((n @ ''/'') @ ''index'' @ []) ''index'' = Some (length (n @ ''/''))"
    by (intro indexOf_first_pattern) simp_all
  from replace_at [OF this] show ?thesis by simp
qed


lemma no_double_slash: "CHR ''/'' \<notin> set n \<Longrightarrow> replace n ''//'' ''/'' = n"
  using replace_no_double_slash [of n "[]"] by simp

lemma pageOption_candidates:
  "getHtmlName rt this ident (config_root this) = newId \<Longrightarrow>
     pageOption rt this ident =
       js_or
         (js_or
            (js_or (get_prop (pages this) newId)
               (get_prop (pages this) (replace (newId @ ''/'') ''//'' ''/'')))
            (get_prop (pages this) (replace (newId @ ''/index'') ''//'' ''/'')))
         (get_prop (pages this) (replace (replace newId ''index'' []) ''//'' ''/''))"
  by (simp add: pageOption_def Let_def)

lemma candidates_bare:
  assumes "CHR ''/'' \<notin> set n" "indexOf n ''index'' = None"
    and "getHtmlName rt this ident (config_root this) = n"
  shows "pageOption rt this ident =
       js_or
         (js_or
            (js_or (get_prop (pages this) n) (get_prop (pages this) (n @ ''/'')))
            (get_prop (pages this) (n @ ''/index'')))
         (get_prop (pages this) n)"
proof -
  have m1: "replace (n @ ''/'') ''//'' ''/'' = n @ ''/''"
    using assms(1) by (simp add: replace_no_double_slash)
  have m2: "replace (n @ ''/index'') ''//'' ''/'' = n @ ''/index''"
    using assms(1) by (simp add: replace_no_double_slash)
  have m3: "replace (replace n ''index'' []) ''//'' ''/'' = n"
    using assms(1,2) by (simp add: replace_absent no_double_slash)
  show ?thesis
    unfolding pageOption_candidates [OF assms(3)] m1 m2 m3 ..
qed

lemma candidates_slash:
  assumes "CHR ''/'' \<notin> set n" "indexOf n ''index'' = None"
    and "getHtmlName rt this ident (config_root this) = n @ ''/''"
  shows "pageOption rt this ident =
       js_or
         (js_or
            (js_or (get_prop (pages this) (n @ ''/'')) (get_prop (pages this) (n @ ''/'')))
            (get_prop (pages this) (n @ ''/index'')))
         (get_prop (pages this) (n @ ''/''))"
proof -
  have m1: "replace ((n @ ''/'') @ ''/'') ''//'' ''/'' = n @ ''/''"
    using replace_double_slash [OF assms(1), of "[]"] by simp
  have m2: "replace ((n @ ''/'') @ ''/index'') ''//'' ''/'' = n @ ''/index''"
    using replace_double_slash [OF assms(1), of "''index''"] by simp
  have "indexOf (n @ ''/'') ''index'' = None"
    using assms(2) by (simp add: indexOf_across_separator)
  then have "replace (n @ ''/'') ''index'' [] = n @ ''/''"
    by (rule replace_absent)
  moreover have "replace (n @ ''/'') ''//'' ''/'' = n @ ''/''"
    using assms(1) by (simp add: replace_no_double_slash)
  ultimately have m3: "replace (replace (n @ ''/'') ''index'' []) ''//'' ''/'' = n @ ''/''"
    by simp
  show ?thesis
    unfolding pageOption_candidates [OF assms(3)] m1 m2 m3 ..
qed

lemma candidates_index:
  assumes "CHR ''/'' \<notin> set n" "indexOf n ''index'' = None"
    and "getHtmlName rt this ident (config_root this) = n @ ''/index''"
  shows "pageOption rt this ident =
       js_or
         (js_or
            (js_or (get_prop (pages this) (n @ ''/index''))
               (get_prop (pages this) (n @ ''/index/'')))
            (get_prop (pages this) (n @ ''/index/index'')))
         (get_prop (pages this) (n @ ''/''))"
proof -
  have m1: "replace ((n @ ''/index'') @ ''/'') ''//'' ''/'' = n @ ''/index/''"
    using replace_no_double_slash [OF assms(1), of "''/index/''"] by simp
  have m2: "replace ((n @ ''/index'') @ ''/index'') ''//'' ''/'' = n @ ''/index/index''"
    using replace_no_double_slash [OF assms(1), of "''/index/index''"] by simp
  have "replace (n @ ''/'') ''//'' ''/'' = n @ ''/''"
    using assms(1) by (simp add: replace_no_double_slash)
  then have m3: "replace (replace (n @ ''/index'') ''index'' []) ''//'' ''/'' = n @ ''/''"
    by (simp add: strip_index [OF assms(2)])
  show ?thesis
    unfolding pageOption_candidates [OF assms(3)] m1 m2 m3 ..
qed

lemma filter_html: "CHR 0x00 \<notin> set n \<Longrightarrow> Base_filter (''/'' @ n @ ''.html'')"
  using indexOf_occurrence
    [of "CHR ''/'' # map (\<lambda>c. if c = CHR 0x5C then CHR ''/'' else c) n" "''.html''" "[]"]
  by (simp add: Base_filter_def)

lemma filter_slash: "CHR 0x00 \<notin> set n \<Longrightarrow> Base_filter (''/'' @ n @ ''/'')"
  by (simp add: Base_filter_def endsWith_def suffix_def)

lemma resolves_to_load:
  "resolves_to rt this ident d \<Longrightarrow> Base_load rt this ident log = load_page rt this (Own d) log"
  by (simp add: resolves_to_def Base_load_def)

text \<open>
  Claim C1, as the code has it. Let \<open>n\<close> be a bare name (no slash, no NUL, no \<open>.html\<close>, no
  \<open>index\<close> in it), with no root configured and the working directory not occurring in
  the ids, and let \<open>d\<close> be a definition other than the empty string.
  \<^item> With \<open>d\<close> under \<open>n\<close>, the id \<open>/n.html\<close> resolves to \<open>d\<close>.
  \<^item> With \<open>d\<close> under \<open>n/\<close> and nothing truthy under \<open>n\<close>, \<open>n/index\<close>, \<open>n/index/\<close> and
    \<open>n/index/index\<close>, the ids \<open>/n.html\<close>, \<open>/n/\<close> and \<open>/n/index.html\<close> all resolve to \<open>d\<close>.
  \<^item> With \<open>d\<close> under \<open>n/index\<close> and nothing truthy under \<open>n\<close> and \<open>n/\<close>, the same three
    ids all resolve to \<open>d\<close>.
  An id that resolves to \<open>d\<close> is loaded as \<open>d\<close>.
\<close>

theorem load_trailing_slash_and_index:
  assumes "CHR ''/'' \<notin> set n" "CHR 0x00 \<notin> set n"
    and "indexOf n ''.html'' = None" "indexOf n ''index'' = None"
    and "config_root this = None"
    and "indexOf (''/'' @ n @ ''.html'') (cwd this) = None"
    and "indexOf (''/'' @ n @ ''/'') (cwd this) = None"
    and "indexOf (''/'' @ n @ ''/index.html'') (cwd this) = None"
    and "truthy (Own d)"
  shows
    "(pages this n = Some d \<longrightarrow> resolves_to rt this (''/'' @ n @ ''.html'') d)
     \<and> (pages this (n @ ''/'') = Some d
          \<and> \<not> truthy (get_prop (pages this) n)
          \<and> \<not> truthy (get_prop (pages this) (n @ ''/index''))
          \<and> \<not> truthy (get_prop (pages this) (n @ ''/index/''))
          \<and> \<not> truthy (get_prop (pages this) (n @ ''/index/index'')) \<longrightarrow>
            resolves_to rt this (''/'' @ n @ ''.html'') d
            \<and> resolves_to rt this (''/'' @ n @ ''/'') d
            \<and> resolves_to rt this (''/'' @ n @ ''/index.html'') d)
     \<and> (pages this (n @ ''/index'') = Some d
          \<and> \<not> truthy (get_prop (pages this) n)
          \<and> \<not> truthy (get_prop (pages this) (n @ ''/'')) \<longrightarrow>
            resolves_to rt this (''/'' @ n @ ''.html'') d
            \<and> resolves_to rt this (''/'' @ n @ ''/'') d
            \<and> resolves_to rt this (''/'' @ n @ ''/index.html'') d)
     \<and> (\<forall>ident. resolves_to rt this ident d \<longrightarrow>
            Base_load rt this ident log = load_page rt this (Own d) log)"
proof -
  have f1: "Base_filter (''/'' @ n @ ''.html'')"
    using assms(2) by (rule filter_html)
  have f2: "Base_filter (''/'' @ n @ ''/'')"
    using assms(2) by (rule filter_slash)
  have f3: "Base_filter (''/'' @ n @ ''/index.html'')"
    using filter_html [of "n @ ''/index''"] assms(2) by simp
  have p1: "pageOption rt this (''/'' @ n @ ''.html'') =
       js_or
         (js_or
            (js_or (get_prop (pages this) n) (get_prop (pages this) (n @ ''/'')))
            (get_prop (pages this) (n @ ''/index'')))
         (get_prop (pages this) n)"
    using getHtmlName_html [OF assms(6) assms(3), of rt] assms(5)
    by (intro candidates_bare [OF assms(1) assms(4)]) simp
  have p2: "pageOption rt this (''/'' @ n @ ''/'') =
       js_or
         (js_or
            (js_or (get_prop (pages this) (n @ ''/'')) (get_prop (pages this) (n @ ''/'')))
            (get_prop (pages this) (n @ ''/index'')))
         (get_prop (pages this) (n @ ''/''))"
    using getHtmlName_slash [OF assms(7) assms(3), of rt] assms(5)
    by (intro candidates_slash [OF assms(1) assms(4)]) simp
  have p3: "pageOption rt this (''/'' @ n @ ''/index.html'') =
       js_or
         (js_or
            (js_or (get_prop (pages this) (n @ ''/index''))
               (get_prop (pages this) (n @ ''/index/'')))
            (get_prop (pages this) (n @ ''/index/index'')))
         (get_prop (pages this) (n @ ''/''))"
    using getHtmlName_index_html [OF assms(8) assms(3), of rt] assms(5)
    by (intro candidates_index [OF assms(1) assms(4)]) simp
  have bare: "pages this n = Some d \<longrightarrow> resolves_to rt this (''/'' @ n @ ''.html'') d"
    unfolding resolves_to_def p1 using assms(9) f1
    by (simp add: get_prop_own or_first)
  have dir: "pages this (n @ ''/'') = Some d
          \<and> \<not> truthy (get_prop (pages this) n)
          \<and> \<not> truthy (get_prop (pages this) (n @ ''/index''))
          \<and> \<not> truthy (get_prop (pages this) (n @ ''/index/''))
          \<and> \<not> truthy (get_prop (pages this) (n @ ''/index/index'')) \<longrightarrow>
            resolves_to rt this (''/'' @ n @ ''.html'') d
            \<and> resolves_to rt this (''/'' @ n @ ''/'') d
            \<and> resolves_to rt this (''/'' @ n @ ''/index.html'') d"
    unfolding resolves_to_def p1 p2 p3 using assms(9) f1 f2 f3
    by (simp add: get_prop_own or_first or_second)
  have idx: "pages this (n @ ''/index'') = Some d
          \<and> \<not> truthy (get_prop (pages this) n)
          \<and> \<not> truthy (get_prop (pages this) (n @ ''/'')) \<longrightarrow>
            resolves_to rt this (''/'' @ n @ ''.html'') d
            \<and> resolves_to rt this (''/'' @ n @ ''/'') d
            \<and> resolves_to rt this (''/'' @ n @ ''/index.html'') d"
    unfolding resolves_to_def p1 p2 p3 using assms(9) f1 f2 f3
    by (simp add: get_prop_own or_first or_second)
  have loads: "\<forall>ident. resolves_to rt this ident d \<longrightarrow>
            Base_load rt this ident log = load_page rt this (Own d) log"
    by (simp add: resolves_to_load)
  from bare dir idx loads show ?thesis by blast
qed

text \<open>The name \<open>about\<close> in tables with the key \<open>about/\<close>, \<open>about/index\<close> and \<open>about\<close>.\<close>

theorem load_trailing_slash_and_index_witness:
  "CHR ''/'' \<notin> set ''about'' \<and> CHR 0x00 \<notin> set ''about''
   \<and> indexOf ''about'' ''.html'' = None \<and> indexOf ''about'' ''index'' = None
   \<and> config_root directory_base = None
   \<and> indexOf (''/'' @ ''about'' @ ''.html'') (cwd directory_base) = None
   \<and> indexOf (''/'' @ ''about'' @ ''/'') (cwd directory_base) = None
   \<and> indexOf (''/'' @ ''about'' @ ''/index.html'') (cwd directory_base) = None
   \<and> truthy (Own (TemplatePath ''/about.html'' :: unit VirtualHtmlPage))
   \<and> pages directory_base (''about'' @ ''/'') = Some (TemplatePath ''/about.html'')
   \<and> \<not> truthy (get_prop (pages directory_base) ''about'')
   \<and> \<not> truthy (get_prop (pages directory_base) (''about'' @ ''/index''))
   \<and> \<not> truthy (get_prop (pages directory_base) (''about'' @ ''/index/''))
   \<and> \<not> truthy (get_prop (pages directory_base) (''about'' @ ''/index/index''))
   \<and> resolves_to example_runtime directory_base ''/about.html'' (TemplatePath ''/about.html'')
   \<and> resolves_to example_runtime directory_base ''/about/'' (TemplatePath ''/about.html'')
   \<and> resolves_to example_runtime directory_base ''/about/index.html''
         (TemplatePath ''/about.html'')
   \<and> Base_load example_runtime directory_base ''/about/'' []
       = load_page example_runtime directory_base (Own (TemplatePath ''/about.html'')) []
   \<and> pages index_base (''about'' @ ''/index'') = Some (TemplatePath ''/about.html'')
   \<and> \<not> truthy (get_prop (pages index_base) ''about'')
   \<and> \<not> truthy (get_prop (pages index_base) (''about'' @ ''/''))
   \<and> resolves_to example_runtime index_base ''/about.html'' (TemplatePath ''/about.html'')
   \<and> resolves_to example_runtime index_base ''/about/'' (TemplatePath ''/about.html'')
   \<and> resolves_to example_runtime index_base ''/about/index.html'' (TemplatePath ''/about.html'')
   \<and> pages example_base ''about'' = Some (TemplatePath ''/about.html'')
   \<and> resolves_to example_runtime example_base ''/about.html'' (TemplatePath ''/about.html'')"
proof -
  have bare: "CHR ''/'' \<notin> set ''about''" "CHR 0x00 \<notin> set ''about''"
    "indexOf ''about'' ''.html'' = None" "indexOf ''about'' ''index'' = None"
    by simp_all
  have tr: "truthy (Own (TemplatePath ''/about.html'' :: unit VirtualHtmlPage))"
    by simp
  have d_root: "config_root directory_base = None"
    and d_cwd: "indexOf (''/'' @ ''about'' @ ''.html'') (cwd directory_base) = None"
      "indexOf (''/'' @ ''about'' @ ''/'') (cwd directory_base) = None"
      "indexOf (''/'' @ ''about'' @ ''/index.html'') (cwd directory_base) = None"
    and d_pages: "pages directory_base (''about'' @ ''/'') = Some (TemplatePath ''/about.html'')"
      "\<not> truthy (get_prop (pages directory_base) ''about'')"
      "\<not> truthy (get_prop (pages directory_base) (''about'' @ ''/index''))"
      "\<not> truthy (get_prop (pages directory_base) (''about'' @ ''/index/''))"
      "\<not> truthy (get_prop (pages directory_base) (''about'' @ ''/index/index''))"
    by (simp_all add: directory_base_def Base_new_def example_options_def example_runtime_def
        get_prop_def object_prototype_keys_def)
  have i_root: "config_root index_base = None"
    and i_cwd: "indexOf (''/'' @ ''about'' @ ''.html'') (cwd index_base) = None"
      "indexOf (''/'' @ ''about'' @ ''/'') (cwd index_base) = None"
      "indexOf (''/'' @ ''about'' @ ''/index.html'') (cwd index_base) = None"
    and i_pages: "pages index_base (''about'' @ ''/index'') = Some (TemplatePath ''/about.html'')"
      "\<not> truthy (get_prop (pages index_base) ''about'')"
      "\<not> truthy (get_prop (pages index_base) (''about'' @ ''/''))"
    by (simp_all add: index_base_def Base_new_def example_options_def example_runtime_def
        get_prop_def object_prototype_keys_def)
  have e_root: "config_root example_base = None"
    and e_cwd: "indexOf (''/'' @ ''about'' @ ''.html'') (cwd example_base) = None"
      "indexOf (''/'' @ ''about'' @ ''/'') (cwd example_base) = None"
      "indexOf (''/'' @ ''about'' @ ''/index.html'') (cwd example_base) = None"
    and e_pages: "pages example_base ''about'' = Some (TemplatePath ''/about.html'')"
    by (simp_all add: example_base_def Base_new_def example_options_def example_runtime_def)
  note dir = load_trailing_slash_and_index
    [OF bare d_root d_cwd tr, of example_runtime "[]"]
  note idx = load_trailing_slash_and_index
    [OF bare i_root i_cwd tr, of example_runtime "[]"]
  note exact = load_trailing_slash_and_index
    [OF bare e_root e_cwd tr, of example_runtime "[]"]
  from dir idx exact bare tr d_root d_cwd d_pages i_pages e_pages
  show ?thesis by simp
qed

text \<open>
  Claim C1 as stated has the definition under the bare name. Then \<open>/about.html\<close> loads
  it, but \<open>/about/\<close> is normalised to \<open>about/\<close>, whose candidates are \<open>about/\<close> and
  \<open>about/index\<close>, and \<open>/about/index\<close> is refused by the filter: both load nothing.
\<close>

theorem load_bare_name_counterexample:
  "pages example_base ''about'' = Some (TemplatePath ''/about.html'')
   \<and> Base_load example_runtime example_base ''/about.html'' []
       = (Inr (Some ''<p>about</p>''), [])
   \<and> Base_load example_runtime example_base ''/about/'' [] = (Inr None, [])
   \<and> Base_load example_runtime example_base ''/about/index'' [] = (Inr None, [])
   \<and> pageOption example_runtime example_base ''/about/'' = Undefined
   \<and> \<not> Base_filter ''/about/index''"
  by (simp add: load_defs example_base_def)

end
